theory Spec2Isabelle
  imports Main "HOL-Library.Word"
begin

unbundle bit_operations_syntax

section \<open>Configuration and types (rtnet\_stack.h)\<close>

text \<open>
  The model follows \<^verbatim>\<open>rtnet_ipv6.c\<close>, the implementation of the public API over the
  single context \<^verbatim>\<open>g_RTNET_Ctx\<close>. The context is passed in and returned explicitly.
  A C pointer argument is an \<open>option\<close> (\<open>None\<close> is \<^verbatim>\<open>NULL\<close>); a pointer into a
  table of the context is the index of the entry. Fixed-width unsigned integers are words.

  The platform hook \<^verbatim>\<open>RTNET_GetTimeMs\<close> is an external collaborator: every reading the
  code takes of it is an argument of the operation that takes it. The hooks
  \<^verbatim>\<open>RTNET_CriticalSectionEnter/Exit\<close> have no effect on the context and
  \<^verbatim>\<open>RTNET_HardwareTransmit\<close> is called by no function of the source, so neither
  appears in the model.
\<close>

type_synonym u8 = "8 word"
type_synonym u16 = "16 word"
type_synonym u32 = "32 word"

definition RTNET_MAX_RX_BUFFERS :: nat where "RTNET_MAX_RX_BUFFERS = 8"
definition RTNET_MAX_TX_BUFFERS :: nat where "RTNET_MAX_TX_BUFFERS = 8"
definition RTNET_MAX_TCP_CONNECTIONS :: nat where "RTNET_MAX_TCP_CONNECTIONS = 4"
definition RTNET_MAX_ROUTING_ENTRIES :: nat where "RTNET_MAX_ROUTING_ENTRIES = 32"
definition RTNET_MAX_NEIGHBOR_CACHE :: nat where "RTNET_MAX_NEIGHBOR_CACHE = 16"
definition RTNET_MAX_MDNS_CACHE :: nat where "RTNET_MAX_MDNS_CACHE = 8"
definition RTNET_MTU_SIZE :: u16 where "RTNET_MTU_SIZE = 1500"
definition RTNET_TCP_TIMEOUT_MS :: u32 where "RTNET_TCP_TIMEOUT_MS = 5000"
definition RTNET_IPV6_ADDR_LEN :: nat where "RTNET_IPV6_ADDR_LEN = 16"
definition RTNET_MAC_ADDR_LEN :: nat where "RTNET_MAC_ADDR_LEN = 6"

text \<open>An IPv6 address is its 16 bytes in network order, a MAC address its 6 bytes.\<close>

type_synonym RTNET_IPv6Addr = "u8 list"
type_synonym RTNET_MACAddr = "u8 list"

definition zero_ipv6 :: RTNET_IPv6Addr where
  "zero_ipv6 = replicate RTNET_IPV6_ADDR_LEN 0"

definition zero_mac :: RTNET_MACAddr where
  "zero_mac = replicate RTNET_MAC_ADDR_LEN 0"

text \<open>
  The buffer descriptor. Its byte region \<^verbatim>\<open>data[RTNET_BUFFER_SIZE]\<close> is read and
  written by no function of the source and is left out.
\<close>

record RTNET_Buffer =
  buf_length :: u16
  buf_offset :: u16
  qos_priority :: u8
  buf_in_use :: bool
  timestamp_ms :: u32

datatype RTNET_TCPState =
    RTNET_TCP_CLOSED
  | RTNET_TCP_LISTEN
  | RTNET_TCP_SYN_SENT
  | RTNET_TCP_SYN_RCVD
  | RTNET_TCP_ESTABLISHED
  | RTNET_TCP_FIN_WAIT
  | RTNET_TCP_CLOSE_WAIT
  | RTNET_TCP_CLOSING
  | RTNET_TCP_TIME_WAIT

record RTNET_TCPConnection =
  local_addr :: RTNET_IPv6Addr
  remote_addr :: RTNET_IPv6Addr
  local_port :: u16
  remote_port :: u16
  tcp_state :: RTNET_TCPState
  send_next :: u32
  send_unack :: u32
  recv_next :: u32
  send_window :: u16
  recv_window :: u16
  retransmit_count :: u8
  last_activity_ms :: u32
  tcp_in_use :: bool

record RTNET_RouteEntry =
  destination :: RTNET_IPv6Addr
  next_hop :: RTNET_IPv6Addr
  netmask :: RTNET_IPv6Addr
  prefix_len :: u8
  metric :: u16
  last_used_ms :: u32
  rt_valid :: bool

record RTNET_NeighborEntry =
  nb_ipv6_addr :: RTNET_IPv6Addr
  nb_mac_addr :: RTNET_MACAddr
  nb_state :: u8
  last_confirmed_ms :: u32
  nb_valid :: bool

record RTNET_mDNSRecord =
  service_name :: "u8 list"
  mdns_ipv6_addr :: RTNET_IPv6Addr
  mdns_port :: u16
  ttl_ms :: u32
  last_seen_ms :: u32
  mdns_valid :: bool

record RTNET_Statistics =
  rx_packets :: u32
  tx_packets :: u32
  rx_errors :: u32
  tx_errors :: u32
  rx_dropped :: u32
  tx_dropped :: u32
  checksum_errors :: u32
  routing_errors :: u32

record RTNET_Context =
  rx_buffers :: "RTNET_Buffer list"
  tx_buffers :: "RTNET_Buffer list"
  tcp_connections :: "RTNET_TCPConnection list"
  routing_table :: "RTNET_RouteEntry list"
  neighbor_cache :: "RTNET_NeighborEntry list"
  mdns_cache :: "RTNET_mDNSRecord list"
  local_ipv6 :: RTNET_IPv6Addr
  local_mac :: RTNET_MACAddr
  stats :: RTNET_Statistics
  next_ephemeral_port :: u16
  sequence_number :: u32
  initialized :: bool

datatype RTNET_Error =
    RTNET_OK
  | RTNET_ERR_INVALID_PARAM
  | RTNET_ERR_NO_BUFFER
  | RTNET_ERR_NO_ROUTE
  | RTNET_ERR_CHECKSUM
  | RTNET_ERR_TIMEOUT
  | RTNET_ERR_CONNECTION
  | RTNET_ERR_OVERFLOW

section \<open>The all-zero context\<close>

text \<open>
  \<^verbatim>\<open>memset(&g_RTNET_Ctx, 0, sizeof(RTNET_Context_t))\<close>: every integer is 0, every
  flag false, every state \<^verbatim>\<open>RTNET_TCP_CLOSED\<close> (the enumerator with value 0).
\<close>

definition zero_buffer :: RTNET_Buffer where
  "zero_buffer = \<lparr> buf_length = 0, buf_offset = 0, qos_priority = 0,
                   buf_in_use = False, timestamp_ms = 0 \<rparr>"

definition zero_connection :: RTNET_TCPConnection where
  "zero_connection = \<lparr> local_addr = zero_ipv6, remote_addr = zero_ipv6,
                       local_port = 0, remote_port = 0, tcp_state = RTNET_TCP_CLOSED,
                       send_next = 0, send_unack = 0, recv_next = 0,
                       send_window = 0, recv_window = 0, retransmit_count = 0,
                       last_activity_ms = 0, tcp_in_use = False \<rparr>"

definition zero_route :: RTNET_RouteEntry where
  "zero_route = \<lparr> destination = zero_ipv6, next_hop = zero_ipv6, netmask = zero_ipv6,
                  prefix_len = 0, metric = 0, last_used_ms = 0, rt_valid = False \<rparr>"

definition zero_neighbor :: RTNET_NeighborEntry where
  "zero_neighbor = \<lparr> nb_ipv6_addr = zero_ipv6, nb_mac_addr = zero_mac, nb_state = 0,
                     last_confirmed_ms = 0, nb_valid = False \<rparr>"

definition zero_mdns_record :: RTNET_mDNSRecord where
  "zero_mdns_record = \<lparr> service_name = replicate 64 0, mdns_ipv6_addr = zero_ipv6,
                        mdns_port = 0, ttl_ms = 0, last_seen_ms = 0, mdns_valid = False \<rparr>"

definition zero_statistics :: RTNET_Statistics where
  "zero_statistics = \<lparr> rx_packets = 0, tx_packets = 0, rx_errors = 0, tx_errors = 0,
                       rx_dropped = 0, tx_dropped = 0, checksum_errors = 0,
                       routing_errors = 0 \<rparr>"

definition zero_context :: RTNET_Context where
  "zero_context =
     \<lparr> rx_buffers = replicate RTNET_MAX_RX_BUFFERS zero_buffer,
       tx_buffers = replicate RTNET_MAX_TX_BUFFERS zero_buffer,
       tcp_connections = replicate RTNET_MAX_TCP_CONNECTIONS zero_connection,
       routing_table = replicate RTNET_MAX_ROUTING_ENTRIES zero_route,
       neighbor_cache = replicate RTNET_MAX_NEIGHBOR_CACHE zero_neighbor,
       mdns_cache = replicate RTNET_MAX_MDNS_CACHE zero_mdns_record,
       local_ipv6 = zero_ipv6, local_mac = zero_mac, stats = zero_statistics,
       next_ephemeral_port = 0, sequence_number = 0, initialized = False \<rparr>"

section \<open>Utility functions\<close>

text \<open>
  \<^verbatim>\<open>RTNET_IPv6_PrefixMatch\<close>: \<^verbatim>\<open>memcmp\<close> over the first \<open>prefix_len / 8\<close> bytes,
  then the remaining bits under the mask \<^verbatim>\<open>(uint8_t)(0xFFU << (8U - remainder_bits))\<close>.
\<close>

definition RTNET_IPv6_PrefixMatch ::
  "RTNET_IPv6Addr option \<Rightarrow> RTNET_IPv6Addr option \<Rightarrow> u8 \<Rightarrow> bool" where
  "RTNET_IPv6_PrefixMatch addr prefix plen =
     (case addr of
        None \<Rightarrow> False
      | Some a \<Rightarrow>
         (case prefix of
            None \<Rightarrow> False
          | Some p \<Rightarrow>
             if plen > 128 then False
             else
               let full_bytes = plen div 8;
                   remainder_bits = plen mod 8
               in
                 if take (unat full_bytes) a \<noteq> take (unat full_bytes) p then False
                 else if remainder_bits > 0 then
                   (let mask = (ucast (push_bit (8 - unat remainder_bits) (0xFF :: u32)) :: u8)
                    in if (a ! unat full_bytes) AND mask \<noteq> (p ! unat full_bytes) AND mask
                       then False else True)
                 else True))"

text \<open>
  The scan shared by the allocation loops: the index of the first entry of a table that
  satisfies a test, as in
  \<^verbatim>\<open>for (i = 0; i < N; i++) { if (!table[i].valid) { ...; return; } }\<close>.
\<close>

fun first_index :: "('a \<Rightarrow> bool) \<Rightarrow> 'a list \<Rightarrow> nat option" where
  "first_index P [] = None"
| "first_index P (x # xs) =
     (if P x then Some 0 else map_option Suc (first_index P xs))"

section \<open>Routing\<close>

text \<open>
  The loop of \<^verbatim>\<open>RTNET_FindRoute\<close>. The accumulator is
  \<open>(best_match, best_prefix_len, best_metric)\<close>; \<open>i\<close> is the index of the head of the
  part of the table still to visit.
\<close>

fun find_route_loop ::
  "RTNET_IPv6Addr \<Rightarrow> RTNET_RouteEntry list \<Rightarrow> nat \<Rightarrow> nat option \<times> u8 \<times> u16
     \<Rightarrow> nat option \<times> u8 \<times> u16" where
  "find_route_loop dest [] i acc = acc"
| "find_route_loop dest (entry # rest) i (best_match, best_prefix_len, best_metric) =
     (if \<not> rt_valid entry then
        find_route_loop dest rest (Suc i) (best_match, best_prefix_len, best_metric)
      else if RTNET_IPv6_PrefixMatch (Some dest) (Some (destination entry)) (prefix_len entry)
              \<and> (prefix_len entry > best_prefix_len
                 \<or> (prefix_len entry = best_prefix_len \<and> metric entry < best_metric)) then
        find_route_loop dest rest (Suc i) (Some i, prefix_len entry, metric entry)
      else
        find_route_loop dest rest (Suc i) (best_match, best_prefix_len, best_metric))"

text \<open>
  \<^verbatim>\<open>RTNET_FindRoute\<close> returns a pointer to the chosen entry or \<^verbatim>\<open>NULL\<close>: here the
  index of the entry or \<open>None\<close>. It writes nothing to the context.
\<close>

definition RTNET_FindRoute :: "RTNET_Context \<Rightarrow> RTNET_IPv6Addr option \<Rightarrow> nat option" where
  "RTNET_FindRoute ctx dest_addr =
     (case dest_addr of
        None \<Rightarrow> None
      | Some dest \<Rightarrow>
          fst (find_route_loop dest (routing_table ctx) 0 (None, 0, 0xFFFF)))"

section \<open>Buffer management\<close>

definition RTNET_FreeBuffer :: "RTNET_Buffer option \<Rightarrow> RTNET_Buffer option" where
  "RTNET_FreeBuffer buffer =
     (case buffer of None \<Rightarrow> None | Some b \<Rightarrow> Some (b\<lparr>buf_in_use := False\<rparr>))"

section \<open>Public API\<close>

definition RTNET_AddRoute ::
  "RTNET_Context \<Rightarrow> RTNET_IPv6Addr option \<Rightarrow> u8 \<Rightarrow> RTNET_IPv6Addr option \<Rightarrow> u16 \<Rightarrow> u32
     \<Rightarrow> RTNET_Error \<times> RTNET_Context" where
  "RTNET_AddRoute ctx dest plen nhop met now =
     (case dest of
        None \<Rightarrow> (RTNET_ERR_INVALID_PARAM, ctx)
      | Some d \<Rightarrow>
          if plen > 128 then (RTNET_ERR_INVALID_PARAM, ctx)
          else
            (case first_index (\<lambda>e. \<not> rt_valid e) (routing_table ctx) of
               None \<Rightarrow> (RTNET_ERR_OVERFLOW, ctx)
             | Some i \<Rightarrow>
                 (RTNET_OK,
                  ctx\<lparr>routing_table :=
                        (routing_table ctx)[i :=
                          (routing_table ctx ! i)
                            \<lparr>destination := d,
                             next_hop := (case nhop of Some h \<Rightarrow> h | None \<Rightarrow> zero_ipv6),
                             prefix_len := plen,
                             metric := met,
                             last_used_ms := now,
                             rt_valid := True\<rparr>]\<rparr>)))"

definition link_local_prefix :: RTNET_IPv6Addr where
  "link_local_prefix = [0xFE, 0x80, 0, 0, 0, 0, 0, 0, 0, 0, 0, 0, 0, 0, 0, 0]"

text \<open>
  \<^verbatim>\<open>RTNET_Initialize\<close> reads the clock twice: \<open>t_seq\<close> for the sequence number,
  \<open>t_route\<close> inside \<^verbatim>\<open>RTNET_AddRoute\<close> for the link-local route.
\<close>

definition RTNET_Initialize ::
  "RTNET_Context \<Rightarrow> RTNET_IPv6Addr option \<Rightarrow> RTNET_MACAddr option \<Rightarrow> u32 \<Rightarrow> u32
     \<Rightarrow> RTNET_Error \<times> RTNET_Context" where
  "RTNET_Initialize ctx ip mac t_seq t_route =
     (case ip of
        None \<Rightarrow> (RTNET_ERR_INVALID_PARAM, ctx)
      | Some ip_bytes \<Rightarrow>
         (case mac of
            None \<Rightarrow> (RTNET_ERR_INVALID_PARAM, ctx)
          | Some mac_bytes \<Rightarrow>
              let c1 = zero_context\<lparr>local_ipv6 := ip_bytes, local_mac := mac_bytes,
                                    next_ephemeral_port := 49152,
                                    sequence_number := t_seq\<rparr>;
                  c2 = snd (RTNET_AddRoute c1 (Some link_local_prefix) 10 None 1 t_route)
              in (RTNET_OK, c2\<lparr>initialized := True\<rparr>)))"

text \<open>
  \<^verbatim>\<open>RTNET_GetStatistics\<close> copies the counters to the caller's structure; the second
  component is the content of that structure after the call.
\<close>

definition RTNET_GetStatistics ::
  "RTNET_Context \<Rightarrow> RTNET_Statistics option \<Rightarrow> RTNET_Error \<times> RTNET_Statistics option" where
  "RTNET_GetStatistics ctx out =
     (case out of
        None \<Rightarrow> (RTNET_ERR_INVALID_PARAM, None)
      | Some _ \<Rightarrow> (RTNET_OK, Some (stats ctx)))"

text \<open>The three sweeps of \<^verbatim>\<open>RTNET_PeriodicTask\<close>, each over its whole table.\<close>

fun age_neighbor_cache :: "u32 \<Rightarrow> RTNET_NeighborEntry list \<Rightarrow> RTNET_NeighborEntry list" where
  "age_neighbor_cache now [] = []"
| "age_neighbor_cache now (entry # rest) =
     (if nb_valid entry \<and> now - last_confirmed_ms entry > 30000
      then entry\<lparr>nb_valid := False\<rparr> else entry) # age_neighbor_cache now rest"

fun age_routing_table :: "u32 \<Rightarrow> RTNET_RouteEntry list \<Rightarrow> RTNET_RouteEntry list" where
  "age_routing_table now [] = []"
| "age_routing_table now (entry # rest) =
     (if rt_valid entry \<and> now - last_used_ms entry > 300000
      then entry\<lparr>rt_valid := False\<rparr> else entry) # age_routing_table now rest"

fun timeout_tcp_connections ::
  "u32 \<Rightarrow> RTNET_TCPConnection list \<Rightarrow> RTNET_TCPConnection list" where
  "timeout_tcp_connections now [] = []"
| "timeout_tcp_connections now (conn # rest) =
     (if tcp_in_use conn \<and> now - last_activity_ms conn > RTNET_TCP_TIMEOUT_MS
      then conn\<lparr>tcp_state := RTNET_TCP_CLOSED, tcp_in_use := False\<rparr> else conn)
     # timeout_tcp_connections now rest"

definition RTNET_PeriodicTask :: "RTNET_Context \<Rightarrow> u32 \<Rightarrow> RTNET_Context" where
  "RTNET_PeriodicTask ctx now =
     ctx\<lparr>neighbor_cache := age_neighbor_cache now (neighbor_cache ctx),
         routing_table := age_routing_table now (routing_table ctx),
         tcp_connections := timeout_tcp_connections now (tcp_connections ctx)\<rparr>"

definition RTNET_ProcessRxPacket ::
  "RTNET_Context \<Rightarrow> u8 list option \<Rightarrow> u16 \<Rightarrow> RTNET_Error \<times> RTNET_Context" where
  "RTNET_ProcessRxPacket ctx data len =
     (if data = None \<or> len = 0 then (RTNET_ERR_INVALID_PARAM, ctx)
      else
        let ctx1 = ctx\<lparr>stats := (stats ctx)\<lparr>rx_packets := rx_packets (stats ctx) + 1\<rparr>\<rparr>
        in if len < 14 + 40 then (RTNET_ERR_INVALID_PARAM, ctx1)
           else (RTNET_ERR_CHECKSUM, ctx1))"

text \<open>
  The auto-assignment of \<^verbatim>\<open>RTNET_UDP_Send\<close>: the source port that the call goes on with,
  and the context with the counter advanced.
\<close>

definition udp_assign_src_port :: "RTNET_Context \<Rightarrow> u16 \<Rightarrow> u16 \<times> RTNET_Context" where
  "udp_assign_src_port ctx src_port =
     (if src_port = 0 then
        let assigned = next_ephemeral_port ctx;
            ctx1 = ctx\<lparr>next_ephemeral_port := next_ephemeral_port ctx + 1\<rparr>
        in (assigned,
            if next_ephemeral_port ctx1 = 0 then ctx1\<lparr>next_ephemeral_port := 49152\<rparr>
            else ctx1)
      else (src_port, ctx))"

definition RTNET_UDP_Send ::
  "RTNET_Context \<Rightarrow> RTNET_IPv6Addr option \<Rightarrow> u16 \<Rightarrow> u16 \<Rightarrow> u8 list option \<Rightarrow> u16 \<Rightarrow> u8
     \<Rightarrow> RTNET_Error \<times> RTNET_Context" where
  "RTNET_UDP_Send ctx dest_addr dest_port src_port payload payload_len qos =
     (if \<not> initialized ctx then (RTNET_ERR_INVALID_PARAM, ctx)
      else if dest_addr = None \<or> dest_port = 0 \<or> payload = None \<or> payload_len = 0
        then (RTNET_ERR_INVALID_PARAM, ctx)
      else if payload_len > RTNET_MTU_SIZE then (RTNET_ERR_INVALID_PARAM, ctx)
      else
        let ctx1 = snd (udp_assign_src_port ctx src_port) in
        (case RTNET_FindRoute ctx1 dest_addr of
           None \<Rightarrow>
             (RTNET_ERR_NO_ROUTE,
              ctx1\<lparr>stats := (stats ctx1)\<lparr>routing_errors := routing_errors (stats ctx1) + 1\<rparr>\<rparr>)
         | Some route \<Rightarrow>
            (case first_index (\<lambda>b. \<not> buf_in_use b) (tx_buffers ctx1) of
               None \<Rightarrow>
                 (RTNET_ERR_NO_BUFFER,
                  ctx1\<lparr>stats := (stats ctx1)\<lparr>tx_dropped := tx_dropped (stats ctx1) + 1\<rparr>\<rparr>)
             | Some i \<Rightarrow>
                 (RTNET_OK,
                  ctx1\<lparr>tx_buffers :=
                         (tx_buffers ctx1)[i :=
                           (tx_buffers ctx1 ! i)\<lparr>buf_in_use := True,
                                                  buf_length := payload_len,
                                                  qos_priority := qos\<rparr>],
                       stats := (stats ctx1)\<lparr>tx_packets := tx_packets (stats ctx1) + 1\<rparr>\<rparr>))))"

text \<open>
  \<^verbatim>\<open>RTNET_TCP_Connect\<close>. \<open>connection_id\<close> is the caller's output cell (\<open>None\<close> for a
  null pointer); the middle component of the result is the cell after the call. The clock
  is read only when a slot is taken.
\<close>

definition RTNET_TCP_Connect ::
  "RTNET_Context \<Rightarrow> RTNET_IPv6Addr option \<Rightarrow> u16 \<Rightarrow> u8 option \<Rightarrow> u32
     \<Rightarrow> RTNET_Error \<times> u8 option \<times> RTNET_Context" where
  "RTNET_TCP_Connect ctx dest_addr dest_port connection_id now =
     (if \<not> initialized ctx then (RTNET_ERR_INVALID_PARAM, connection_id, ctx)
      else
       (case dest_addr of
          None \<Rightarrow> (RTNET_ERR_INVALID_PARAM, connection_id, ctx)
        | Some dest \<Rightarrow>
           if dest_port = 0 \<or> connection_id = None
             then (RTNET_ERR_INVALID_PARAM, connection_id, ctx)
           else
            (case RTNET_FindRoute ctx dest_addr of
               None \<Rightarrow>
                 (RTNET_ERR_NO_ROUTE, connection_id,
                  ctx\<lparr>stats := (stats ctx)\<lparr>routing_errors := routing_errors (stats ctx) + 1\<rparr>\<rparr>)
             | Some route \<Rightarrow>
                (case first_index (\<lambda>c. \<not> tcp_in_use c) (tcp_connections ctx) of
                   None \<Rightarrow> (RTNET_ERR_NO_BUFFER, connection_id, ctx)
                 | Some i \<Rightarrow>
                     (RTNET_OK, Some (of_nat i),
                      ctx\<lparr>tcp_connections :=
                             (tcp_connections ctx)[i :=
                               zero_connection\<lparr>local_addr := local_ipv6 ctx,
                                               remote_addr := dest,
                                               local_port := next_ephemeral_port ctx,
                                               remote_port := dest_port,
                                               tcp_state := RTNET_TCP_ESTABLISHED,
                                               last_activity_ms := now,
                                               tcp_in_use := True\<rparr>],
                           next_ephemeral_port := next_ephemeral_port ctx + 1\<rparr>)))))"

definition RTNET_TCP_Send ::
  "RTNET_Context \<Rightarrow> u8 \<Rightarrow> u8 list option \<Rightarrow> u16 \<Rightarrow> u32 \<Rightarrow> RTNET_Error \<times> RTNET_Context" where
  "RTNET_TCP_Send ctx connection_id data len now =
     (if data = None \<or> len = 0 then (RTNET_ERR_INVALID_PARAM, ctx)
      else if unat connection_id \<ge> RTNET_MAX_TCP_CONNECTIONS
        then (RTNET_ERR_INVALID_PARAM, ctx)
      else
        let i = unat connection_id; conn = tcp_connections ctx ! i in
        if \<not> tcp_in_use conn then (RTNET_ERR_CONNECTION, ctx)
        else
          (RTNET_OK,
           ctx\<lparr>tcp_connections := (tcp_connections ctx)[i := conn\<lparr>last_activity_ms := now\<rparr>],
               stats := (stats ctx)\<lparr>tx_packets := tx_packets (stats ctx) + 1\<rparr>\<rparr>))"

definition RTNET_TCP_Close :: "RTNET_Context \<Rightarrow> u8 \<Rightarrow> RTNET_Error \<times> RTNET_Context" where
  "RTNET_TCP_Close ctx connection_id =
     (if unat connection_id \<ge> RTNET_MAX_TCP_CONNECTIONS then (RTNET_ERR_INVALID_PARAM, ctx)
      else
        let i = unat connection_id; conn = tcp_connections ctx ! i in
        if \<not> tcp_in_use conn then (RTNET_ERR_CONNECTION, ctx)
        else
          (RTNET_OK,
           ctx\<lparr>tcp_connections :=
                 (tcp_connections ctx)[i := conn\<lparr>tcp_in_use := False,
                                                  tcp_state := RTNET_TCP_CLOSED\<rparr>]\<rparr>))"

text \<open>
  \<^verbatim>\<open>RTNET_mDNS_Query\<close> zeroes the caller's record and reports a timeout; it does not
  touch the context. \<^verbatim>\<open>RTNET_mDNS_Announce\<close> counts one transmitted packet.
\<close>

definition RTNET_mDNS_Query ::
  "string option \<Rightarrow> RTNET_mDNSRecord option \<Rightarrow> RTNET_Error \<times> RTNET_mDNSRecord option" where
  "RTNET_mDNS_Query name out =
     (if name = None \<or> out = None then (RTNET_ERR_INVALID_PARAM, out)
      else (RTNET_ERR_TIMEOUT, Some zero_mdns_record))"

definition RTNET_mDNS_Announce ::
  "RTNET_Context \<Rightarrow> string option \<Rightarrow> u16 \<Rightarrow> u32 \<Rightarrow> RTNET_Error \<times> RTNET_Context" where
  "RTNET_mDNS_Announce ctx name port ttl_sec =
     (if name = None \<or> port = 0 \<or> ttl_sec = 0 then (RTNET_ERR_INVALID_PARAM, ctx)
      else (RTNET_OK, ctx\<lparr>stats := (stats ctx)\<lparr>tx_packets := tx_packets (stats ctx) + 1\<rparr>\<rparr>))"

section \<open>Concrete scenarios\<close>

text \<open>
  The contexts of the desktop demo: initialization with the local address \<open>fe80::10\<close>
  (clock readings 10 and 20), then a host route to \<open>2001:db8::1\<close> added at time 30.
  \<open>demo_echo_frame\<close> is the 62-byte frame of the test suite's
  \<^verbatim>\<open>test_ipv6_packet_processing\<close>: Ethernet, IPv6 and an ICMPv6 echo request whose
  checksum field is left zero. \<open>demo_payload\<close> is the demo's 16-byte payload.
\<close>

definition demo_local_ip :: RTNET_IPv6Addr where
  "demo_local_ip = [0xFE, 0x80, 0, 0, 0, 0, 0, 0, 0, 0, 0, 0, 0, 0, 0, 0x10]"
definition demo_local_mac :: RTNET_MACAddr where
  "demo_local_mac = [0x00, 0xDE, 0xAD, 0xBE, 0xEF, 0x01]"
definition demo_remote_ip :: RTNET_IPv6Addr where
  "demo_remote_ip = [0x20, 0x01, 0x0D, 0xB8, 0, 0, 0, 0, 0, 0, 0, 0, 0, 0, 0, 0x01]"
definition demo_init :: RTNET_Context where
  "demo_init = snd (RTNET_Initialize zero_context (Some demo_local_ip) (Some demo_local_mac) 10 20)"
definition demo_routed :: RTNET_Context where
  "demo_routed = snd (RTNET_AddRoute demo_init (Some demo_remote_ip) 128 None 1 30)"

definition demo_echo_frame :: "u8 list" where
  "demo_echo_frame =
     [0x00, 0x11, 0x22, 0x33, 0x44, 0x55, 0xAA, 0xBB, 0xCC, 0xDD, 0xEE, 0xFF, 0x86, 0xDD,
      0x60, 0, 0, 0, 0x00, 0x08, 58, 64,
      0x20, 0x01, 0x0D, 0xB8, 0, 0, 0, 0, 0, 0, 0, 0, 0, 0, 0, 0x01,
      0xFE, 0x80, 0, 0, 0, 0, 0, 0, 0x02, 0x00, 0x5E, 0xFF, 0xFE, 0x00, 0x53, 0x00,
      128, 0, 0, 0, 0, 0, 0, 0]"

definition demo_payload :: "u8 list" where
  "demo_payload = map (of_nat \<circ> of_char) ''hello from host'' @ [0]"

text \<open>
  \<open>demo_default\<close> is the freshly initialized context with a default route \<open>::/0\<close> of
  metric 65535 added at time 30. \<open>demo_unrouted_ip\<close> is \<open>2001:db8::2\<close>, covered by no
  route of \<open>demo_routed\<close>.
\<close>

definition demo_default :: RTNET_Context where
  "demo_default = snd (RTNET_AddRoute demo_init (Some zero_ipv6) 0 None 0xFFFF 30)"

definition demo_unrouted_ip :: RTNET_IPv6Addr where
  "demo_unrouted_ip = [0x20, 0x01, 0x0D, 0xB8, 0, 0, 0, 0, 0, 0, 0, 0, 0, 0, 0, 0x02]"

section \<open>Specification vocabulary\<close>

text \<open>
  A route entry is a candidate for a destination when it is valid and its prefix matches
  under \<^verbatim>\<open>RTNET_IPv6_PrefixMatch\<close>, the test of the lookup loop.
\<close>

definition route_matches :: "RTNET_IPv6Addr \<Rightarrow> RTNET_RouteEntry \<Rightarrow> bool" where
  "route_matches dest entry \<longleftrightarrow>
     rt_valid entry
     \<and> RTNET_IPv6_PrefixMatch (Some dest) (Some (destination entry)) (prefix_len entry)"

text \<open>
  Sequences of calls of the public API. A call carries its arguments and the clock
  readings it takes; \<open>api_run\<close> threads the context through the calls in order.
  \<^verbatim>\<open>RTNET_GetStatistics\<close> and \<^verbatim>\<open>RTNET_mDNS_Query\<close> write to the caller's
  memory only and leave the context as it is.
\<close>

datatype api_call =
    Call_Initialize "RTNET_IPv6Addr option" "RTNET_MACAddr option" u32 u32
  | Call_AddRoute "RTNET_IPv6Addr option" u8 "RTNET_IPv6Addr option" u16 u32
  | Call_GetStatistics "RTNET_Statistics option"
  | Call_PeriodicTask u32
  | Call_ProcessRxPacket "u8 list option" u16
  | Call_UDP_Send "RTNET_IPv6Addr option" u16 u16 "u8 list option" u16 u8
  | Call_TCP_Connect "RTNET_IPv6Addr option" u16 "u8 option" u32
  | Call_TCP_Send u8 "u8 list option" u16 u32
  | Call_TCP_Close u8
  | Call_mDNS_Query "string option" "RTNET_mDNSRecord option"
  | Call_mDNS_Announce "string option" u16 u32

fun api_step :: "RTNET_Context \<Rightarrow> api_call \<Rightarrow> RTNET_Context" where
  "api_step ctx (Call_Initialize ip mac t_seq t_route) =
     snd (RTNET_Initialize ctx ip mac t_seq t_route)"
| "api_step ctx (Call_AddRoute dest plen nhop met now) =
     snd (RTNET_AddRoute ctx dest plen nhop met now)"
| "api_step ctx (Call_GetStatistics out) = ctx"
| "api_step ctx (Call_PeriodicTask now) = RTNET_PeriodicTask ctx now"
| "api_step ctx (Call_ProcessRxPacket data len) = snd (RTNET_ProcessRxPacket ctx data len)"
| "api_step ctx (Call_UDP_Send dest dport sport payload len qos) =
     snd (RTNET_UDP_Send ctx dest dport sport payload len qos)"
| "api_step ctx (Call_TCP_Connect dest dport cell now) =
     snd (snd (RTNET_TCP_Connect ctx dest dport cell now))"
| "api_step ctx (Call_TCP_Send cid data len now) = snd (RTNET_TCP_Send ctx cid data len now)"
| "api_step ctx (Call_TCP_Close cid) = snd (RTNET_TCP_Close ctx cid)"
| "api_step ctx (Call_mDNS_Query name out) = ctx"
| "api_step ctx (Call_mDNS_Announce name port ttl_sec) =
     snd (RTNET_mDNS_Announce ctx name port ttl_sec)"

definition api_run :: "RTNET_Context \<Rightarrow> api_call list \<Rightarrow> RTNET_Context" where
  "api_run ctx calls = foldl api_step ctx calls"

text \<open>
  The tables of the context are C arrays of fixed size; the loops of the source run over
  all their entries. In the model they are lists, and \<open>tables_sized\<close> says that each has
  the length of its array.
\<close>

definition tables_sized :: "RTNET_Context \<Rightarrow> bool" where
  "tables_sized ctx \<longleftrightarrow>
     length (rx_buffers ctx) = RTNET_MAX_RX_BUFFERS
     \<and> length (tx_buffers ctx) = RTNET_MAX_TX_BUFFERS
     \<and> length (tcp_connections ctx) = RTNET_MAX_TCP_CONNECTIONS
     \<and> length (routing_table ctx) = RTNET_MAX_ROUTING_ENTRIES
     \<and> length (neighbor_cache ctx) = RTNET_MAX_NEIGHBOR_CACHE
     \<and> length (mdns_cache ctx) = RTNET_MAX_MDNS_CACHE"

text \<open>
  The two conditions a connection slot is found in: in use and established, or free and
  closed.
\<close>

definition tcp_slot_ok :: "RTNET_TCPConnection \<Rightarrow> bool" where
  "tcp_slot_ok conn \<longleftrightarrow>
     (if tcp_in_use conn then tcp_state conn = RTNET_TCP_ESTABLISHED
      else tcp_state conn = RTNET_TCP_CLOSED)"

text \<open>
  \<open>demo_session\<close> opens two connections, sends on the first, closes it and runs the
  periodic task. \<open>demo_port_trace\<close> makes 16383 sends with an automatic source port to an
  unrouted destination, then opens two connections. \<open>port_probe_state n\<close> describes the
  context after \<open>n\<close> of those sends.
\<close>

definition demo_session :: "api_call list" where
  "demo_session =
     [Call_AddRoute (Some demo_remote_ip) 128 None 1 30,
      Call_TCP_Connect (Some demo_remote_ip) 80 (Some 0) 40,
      Call_TCP_Connect (Some demo_remote_ip) 443 (Some 0) 50,
      Call_TCP_Send 0 (Some demo_payload) 16 60,
      Call_TCP_Close 0,
      Call_PeriodicTask 5045]"

definition demo_port_probe :: api_call where
  "demo_port_probe = Call_UDP_Send (Some demo_unrouted_ip) 7 0 (Some demo_payload) 16 2"

definition demo_port_trace :: "api_call list" where
  "demo_port_trace =
     replicate 16383 demo_port_probe
     @ [Call_TCP_Connect (Some demo_remote_ip) 80 (Some 0) 50,
        Call_TCP_Connect (Some demo_remote_ip) 443 (Some 0) 60]"

definition port_probe_state :: "nat \<Rightarrow> RTNET_Context \<Rightarrow> bool" where
  "port_probe_state n s \<longleftrightarrow>
     initialized s
     \<and> routing_table s = routing_table demo_routed
     \<and> tcp_connections s = tcp_connections demo_routed
     \<and> unat (next_ephemeral_port s) = 49152 + n"

section \<open>Properties\<close>

subsection \<open>Helper lemmas\<close>

lemma first_index_Some:
  "first_index P xs = Some i \<Longrightarrow> i < length xs \<and> P (xs ! i) \<and> (\<forall>j<i. \<not> P (xs ! j))"
proof (induction xs arbitrary: i)
  case Nil
  then show ?case by simp
next
  case (Cons x xs)
  show ?case
  proof (cases "P x")
    case True
    with Cons.prems show ?thesis by simp
  next
    case False
    with Cons.prems obtain k where k: "first_index P xs = Some k" "i = Suc k"
      by auto
    from Cons.IH [OF k(1)] False k(2) show ?thesis
      by (auto simp: nth_Cons')
  qed
qed

lemma first_index_None: "(first_index P xs = None) = (\<forall>x\<in>set xs. \<not> P x)"
  by (induction xs) auto

lemma first_index_replicate: "0 < n \<Longrightarrow> P x \<Longrightarrow> first_index P (replicate n x) = Some 0"
  by (cases n) auto

lemma find_route_table_only:
  "routing_table a = routing_table b \<Longrightarrow> RTNET_FindRoute a d = RTNET_FindRoute b d"
  by (simp add: RTNET_FindRoute_def split: option.splits)

lemma find_route_port_update:
  "RTNET_FindRoute (s\<lparr>next_ephemeral_port := p\<rparr>) d = RTNET_FindRoute s d"
  by (rule find_route_table_only) simp

lemma udp_assign_src_port_frame:
  "routing_table (snd (udp_assign_src_port ctx p)) = routing_table ctx"
  "tx_buffers (snd (udp_assign_src_port ctx p)) = tx_buffers ctx"
  "tcp_connections (snd (udp_assign_src_port ctx p)) = tcp_connections ctx"
  "stats (snd (udp_assign_src_port ctx p)) = stats ctx"
  "initialized (snd (udp_assign_src_port ctx p)) = initialized ctx"
  by (simp_all add: udp_assign_src_port_def Let_def)

lemma udp_send_find_route:
  "RTNET_FindRoute (snd (udp_assign_src_port ctx p)) d = RTNET_FindRoute ctx d"
  by (rule find_route_table_only) (simp add: udp_assign_src_port_frame)

lemma list_all_update:
  "list_all P xs \<Longrightarrow> P y \<Longrightarrow> list_all P (xs[i := y])"
  unfolding list_all_iff using set_update_subset_insert [of xs i y] by fastforce

lemma list_all_update_nth:
  "list_all P xs \<Longrightarrow> (i < length xs \<Longrightarrow> P (f (xs ! i))) \<Longrightarrow> list_all P (xs[i := f (xs ! i)])"
  by (cases "i < length xs") (simp_all add: list_all_update list_update_beyond)

lemma u16_succ: "unat ((p :: u16) + 1) = (unat p + 1) mod 65536"
  by (simp add: unat_word_ariths)

lemma u16_succ_zero: "(p + 1 = 0) = (p = (0xFFFF :: u16))"
proof
  assume z: "p + 1 = 0"
  have "p = (p + 1) - 1" by simp
  also have "\<dots> = 0 - 1" by (simp only: z)
  also have "\<dots> = 0xFFFF" by simp
  finally show "p = 0xFFFF" .
next
  assume "p = 0xFFFF"
  then show "p + 1 = 0" by simp
qed

lemma u16_succ_in_range:
  "unat (p :: u16) = 49152 + n \<Longrightarrow> n < 16383 \<Longrightarrow> p + 1 \<noteq> 0 \<and> unat (p + 1) = 49152 + Suc n"
proof -
  assume a: "unat p = 49152 + n" "n < 16383"
  from a have s: "unat (p + 1) = 49152 + Suc n" by (simp only: u16_succ) simp
  have "p + 1 \<noteq> 0"
  proof
    assume "p + 1 = 0"
    then have "unat (p + 1) = 0" by (simp only: unat_eq_0)
    with s show False by simp
  qed
  with s show ?thesis by simp
qed

lemma api_run_Nil: "api_run s [] = s"
  by (simp add: api_run_def)

lemma api_run_Cons: "api_run s (call # calls) = api_run (api_step s call) calls"
  by (simp add: api_run_def)

lemma api_run_append: "api_run s (xs @ ys) = api_run (api_run s xs) ys"
  by (simp add: api_run_def)

subsection \<open>Receive path\<close>

text \<open>
  Claim C10. Every call of \<^verbatim>\<open>RTNET_ProcessRxPacket\<close> with a non-null data pointer and a
  length of at least 1 increments \<open>rx_packets\<close> by exactly one (in 32-bit arithmetic) and
  changes nothing else in the context; this includes the frames shorter than 54 bytes,
  which are rejected with \<^verbatim>\<open>RTNET_ERR_INVALID_PARAM\<close> after the increment.
\<close>

theorem process_rx_counts_every_frame:
  "data \<noteq> None \<and> 1 \<le> len \<longrightarrow>
     snd (RTNET_ProcessRxPacket ctx data len)
       = ctx\<lparr>stats := (stats ctx)\<lparr>rx_packets := rx_packets (stats ctx) + 1\<rparr>\<rparr>
     \<and> rx_packets (stats (snd (RTNET_ProcessRxPacket ctx data len))) = rx_packets (stats ctx) + 1
     \<and> (len < 54 \<longrightarrow> fst (RTNET_ProcessRxPacket ctx data len) = RTNET_ERR_INVALID_PARAM)"
  by (auto simp: RTNET_ProcessRxPacket_def Let_def)

text \<open>
  On the freshly initialized context a one-byte frame is counted and rejected.
\<close>

theorem process_rx_counts_every_frame_witness:
  "rx_packets (stats (snd (RTNET_ProcessRxPacket demo_init (Some [0x33]) 1))) = 1
   \<and> fst (RTNET_ProcessRxPacket demo_init (Some [0x33]) 1) = RTNET_ERR_INVALID_PARAM"
proof -
  have z: "rx_packets (stats demo_init) = 0" by code_simp
  show ?thesis
    using process_rx_counts_every_frame [where data = "Some [0x33]" and len = 1 and ctx = demo_init] z
    by simp
qed

text \<open>
  Claim C7, as amended. The receive path validates no checksum: every frame with a non-null
  data pointer and a length of at least 54 is answered with \<^verbatim>\<open>RTNET_ERR_CHECKSUM\<close>,
  \<open>rx_packets\<close> is incremented by one and \<open>checksum_errors\<close> is left as it was.
\<close>

theorem process_rx_checksum_kind:
  "data \<noteq> None \<and> 54 \<le> len \<longrightarrow>
     fst (RTNET_ProcessRxPacket ctx data len) = RTNET_ERR_CHECKSUM
     \<and> rx_packets (stats (snd (RTNET_ProcessRxPacket ctx data len))) = rx_packets (stats ctx) + 1
     \<and> checksum_errors (stats (snd (RTNET_ProcessRxPacket ctx data len)))
         = checksum_errors (stats ctx)"
  by (auto simp: RTNET_ProcessRxPacket_def Let_def)

text \<open>
  The test suite's echo request on the freshly initialized context.
\<close>

theorem process_rx_checksum_kind_witness:
  "fst (RTNET_ProcessRxPacket demo_init (Some demo_echo_frame) 62) = RTNET_ERR_CHECKSUM
   \<and> rx_packets (stats (snd (RTNET_ProcessRxPacket demo_init (Some demo_echo_frame) 62))) = 1
   \<and> checksum_errors (stats (snd (RTNET_ProcessRxPacket demo_init (Some demo_echo_frame) 62))) = 0"
proof -
  have z: "rx_packets (stats demo_init) = 0" "checksum_errors (stats demo_init) = 0"
    by code_simp+
  show ?thesis
    using process_rx_checksum_kind [where data = "Some demo_echo_frame" and len = 62
        and ctx = demo_init] z
    by simp
qed

text \<open>
  Claim C7 as stated fails on that frame: the call returns \<^verbatim>\<open>RTNET_ERR_CHECKSUM\<close>
  and \<open>checksum_errors\<close> does not move.
\<close>

theorem process_rx_checksum_counter_counterexample:
  "length demo_echo_frame = 62
   \<and> fst (RTNET_ProcessRxPacket demo_init (Some demo_echo_frame) 62) = RTNET_ERR_CHECKSUM
   \<and> checksum_errors (stats (snd (RTNET_ProcessRxPacket demo_init (Some demo_echo_frame) 62)))
       = checksum_errors (stats demo_init)
   \<and> checksum_errors (stats (snd (RTNET_ProcessRxPacket demo_init (Some demo_echo_frame) 62)))
       \<noteq> checksum_errors (stats demo_init) + 1"
  by code_simp

subsection \<open>UDP send\<close>

text \<open>
  The guards of \<^verbatim>\<open>RTNET_UDP_Send\<close>: it returns \<^verbatim>\<open>RTNET_ERR_INVALID_PARAM\<close> exactly
  when the context is uninitialized, the destination or the payload pointer is null, the
  destination port is 0, or the payload length is 0 or greater than 1500. When the route
  lookup returns an entry and a TX buffer is free, the payload lengths 1 and 1500 succeed;
  1501 fails with \<^verbatim>\<open>RTNET_ERR_INVALID_PARAM\<close>.
\<close>

lemma udp_send_invalid_param_guard:
  "((fst (RTNET_UDP_Send ctx dest_addr dest_port src_port payload payload_len qos)
       = RTNET_ERR_INVALID_PARAM)
     = (\<not> initialized ctx \<or> dest_addr = None \<or> payload = None \<or> dest_port = 0
        \<or> payload_len = 0 \<or> payload_len > 1500))
   \<and> (initialized ctx \<and> dest_addr \<noteq> None \<and> payload \<noteq> None \<and> dest_port \<noteq> 0
        \<and> RTNET_FindRoute ctx dest_addr \<noteq> None
        \<and> (\<exists>b \<in> set (tx_buffers ctx). \<not> buf_in_use b)
      \<longrightarrow> fst (RTNET_UDP_Send ctx dest_addr dest_port src_port payload 1 qos) = RTNET_OK
        \<and> fst (RTNET_UDP_Send ctx dest_addr dest_port src_port payload 1500 qos) = RTNET_OK
        \<and> fst (RTNET_UDP_Send ctx dest_addr dest_port src_port payload 1501 qos)
            = RTNET_ERR_INVALID_PARAM)"
proof -
  have iff: "\<And>n. (fst (RTNET_UDP_Send ctx dest_addr dest_port src_port payload n qos)
       = RTNET_ERR_INVALID_PARAM)
     = (\<not> initialized ctx \<or> dest_addr = None \<or> payload = None \<or> dest_port = 0
        \<or> n = 0 \<or> n > 1500)"
    by (auto simp: RTNET_UDP_Send_def RTNET_MTU_SIZE_def Let_def split: option.splits)
  have ok: "fst (RTNET_UDP_Send ctx dest_addr dest_port src_port payload n qos) = RTNET_OK"
    if "initialized ctx" "dest_addr \<noteq> None" "payload \<noteq> None" "dest_port \<noteq> 0"
       "RTNET_FindRoute ctx dest_addr \<noteq> None" "\<exists>b \<in> set (tx_buffers ctx). \<not> buf_in_use b"
       "n \<noteq> 0" "\<not> n > 1500" for n
  proof -
    from that(6) have "first_index (\<lambda>b. \<not> buf_in_use b) (tx_buffers ctx) \<noteq> None"
      by (simp add: first_index_None)
    with that show ?thesis
      by (auto simp: RTNET_UDP_Send_def RTNET_MTU_SIZE_def Let_def udp_send_find_route
            udp_assign_src_port_frame split: option.splits)
  qed
  show ?thesis
    using iff [of payload_len] iff [of 1501] ok [of 1] ok [of 1500] by simp
qed

text \<open>
  Claim C8. The claim asks that, with a matching route and a free TX buffer, the payload
  lengths 1 and 1500 succeed. In the context reached by initialization and
  \<open>add_route(::/0, metric 65535)\<close> the added route is valid and matches \<open>2001:db8::1\<close>
  and TX buffer 0 is free, yet the sends of length 1 and of length 1500 both return
  \<^verbatim>\<open>RTNET_ERR_NO_ROUTE\<close>: the lookup never chooses that route. The length 1501 is
  rejected with \<^verbatim>\<open>RTNET_ERR_INVALID_PARAM\<close> as the claim says.
\<close>

theorem udp_send_no_route_despite_default_route:
  "fst (RTNET_AddRoute demo_init (Some zero_ipv6) 0 None 0xFFFF 30) = RTNET_OK
   \<and> initialized demo_default
   \<and> route_matches demo_remote_ip (routing_table demo_default ! 1)
   \<and> \<not> buf_in_use (tx_buffers demo_default ! 0)
   \<and> fst (RTNET_UDP_Send demo_default (Some demo_remote_ip) 12345 0 (Some demo_payload) 1 2)
       = RTNET_ERR_NO_ROUTE
   \<and> fst (RTNET_UDP_Send demo_default (Some demo_remote_ip) 12345 0 (Some demo_payload) 1500 2)
       = RTNET_ERR_NO_ROUTE
   \<and> fst (RTNET_UDP_Send demo_default (Some demo_remote_ip) 12345 0 (Some demo_payload) 1501 2)
       = RTNET_ERR_INVALID_PARAM"
  by code_simp

text \<open>
  Claim C1, as amended. A successful \<^verbatim>\<open>RTNET_UDP_Send\<close> takes the first free TX
  buffer, marks it in use, records the payload length and the QoS class in it and counts one
  transmitted packet. The buffer is not freed: it is still in use when the call returns, and
  all other TX buffers are as before.
\<close>

theorem udp_send_ok_keeps_buffer:
  "RTNET_UDP_Send ctx dest_addr dest_port src_port payload payload_len qos = (RTNET_OK, ctx') \<Longrightarrow>
     \<exists>i < length (tx_buffers ctx).
        \<not> buf_in_use (tx_buffers ctx ! i)
      \<and> (\<forall>j<i. buf_in_use (tx_buffers ctx ! j))
      \<and> tx_buffers ctx' =
          (tx_buffers ctx)[i := (tx_buffers ctx ! i)\<lparr>buf_in_use := True,
                                                   buf_length := payload_len,
                                                   qos_priority := qos\<rparr>]
      \<and> buf_in_use (tx_buffers ctx' ! i)
      \<and> tx_packets (stats ctx') = tx_packets (stats ctx) + 1"
proof -
  assume a: "RTNET_UDP_Send ctx dest_addr dest_port src_port payload payload_len qos = (RTNET_OK, ctx')"
  let ?c1 = "snd (udp_assign_src_port ctx src_port)"
  from a obtain i where i: "first_index (\<lambda>b. \<not> buf_in_use b) (tx_buffers ctx) = Some i"
    and c: "ctx' = ?c1\<lparr>tx_buffers :=
                         (tx_buffers ?c1)[i :=
                           (tx_buffers ?c1 ! i)\<lparr>buf_in_use := True,
                                                  buf_length := payload_len,
                                                  qos_priority := qos\<rparr>],
                       stats := (stats ?c1)\<lparr>tx_packets := tx_packets (stats ?c1) + 1\<rparr>\<rparr>"
    by (auto simp: RTNET_UDP_Send_def Let_def udp_assign_src_port_frame
          split: if_splits option.splits)
  from first_index_Some [OF i] c show ?thesis
    by (auto simp: udp_assign_src_port_frame)
qed

text \<open>
  The desktop demo's send takes TX buffer 0.
\<close>

theorem udp_send_ok_keeps_buffer_witness:
  "fst (RTNET_UDP_Send demo_routed (Some demo_remote_ip) 12345 0 (Some demo_payload) 16 2) = RTNET_OK
   \<and> buf_in_use
        (tx_buffers
           (snd (RTNET_UDP_Send demo_routed (Some demo_remote_ip) 12345 0 (Some demo_payload) 16 2))
         ! 0)
   \<and> tx_packets
        (stats (snd (RTNET_UDP_Send demo_routed (Some demo_remote_ip) 12345 0 (Some demo_payload) 16 2)))
       = 1"
proof -
  let ?r = "RTNET_UDP_Send demo_routed (Some demo_remote_ip) 12345 0 (Some demo_payload) 16 2"
  have ok: "fst ?r = RTNET_OK" by code_simp
  then have eq: "?r = (RTNET_OK, snd ?r)" by (metis prod.collapse)
  have free0: "\<not> buf_in_use (tx_buffers demo_routed ! 0)" by code_simp
  have z: "tx_packets (stats demo_routed) = 0" by code_simp
  from udp_send_ok_keeps_buffer [OF eq] obtain i where
    i: "\<forall>j<i. buf_in_use (tx_buffers demo_routed ! j)"
       "buf_in_use (tx_buffers (snd ?r) ! i)"
       "tx_packets (stats (snd ?r)) = tx_packets (stats demo_routed) + 1"
    by blast
  from i(1) free0 have "i = 0" by (cases i) auto
  with i z ok show ?thesis by simp
qed

text \<open>
  Claim C1 as stated fails on the desktop demo's send: the call succeeds and TX buffer 0
  is in use after it has returned.
\<close>

theorem udp_send_leaves_buffer_in_use_counterexample:
  "fst (RTNET_UDP_Send demo_routed (Some demo_remote_ip) 12345 0 (Some demo_payload) 16 2) = RTNET_OK
   \<and> buf_in_use
        (tx_buffers
           (snd (RTNET_UDP_Send demo_routed (Some demo_remote_ip) 12345 0 (Some demo_payload) 16 2))
         ! 0)"
  by code_simp

subsection \<open>Route lookup\<close>

text \<open>
  The invariant of the lookup loop. The result is at least the starting accumulator in the
  order (longer prefix, then lower metric); no candidate among the visited entries is
  strictly better than the result; and the result is either the starting accumulator or a
  visited candidate together with its prefix length and metric.
\<close>

lemma find_route_loop_inv:
  assumes "find_route_loop d es i (bm, bpl, bmet) = (rm, rpl, rmet)"
  shows "(bpl < rpl \<or> (rpl = bpl \<and> rmet \<le> bmet))
       \<and> (\<forall>e\<in>set es. route_matches d e \<longrightarrow>
             prefix_len e < rpl \<or> (prefix_len e = rpl \<and> rmet \<le> metric e))
       \<and> ((rm = bm \<and> rpl = bpl \<and> rmet = bmet)
          \<or> (\<exists>k<length es. rm = Some (i + k) \<and> route_matches d (es ! k)
                \<and> prefix_len (es ! k) = rpl \<and> metric (es ! k) = rmet))"
  using assms
proof (induction es arbitrary: i bm bpl bmet)
  case Nil
  then show ?case by simp
next
  case (Cons e es)
  let ?better = "bpl < prefix_len e \<or> (prefix_len e = bpl \<and> metric e < bmet)"
  show ?case
  proof (cases "route_matches d e \<and> ?better")
    case True
    with Cons.prems
    have run: "find_route_loop d es (Suc i) (Some i, prefix_len e, metric e) = (rm, rpl, rmet)"
      by (auto simp: route_matches_def)
    note IH = Cons.IH [OF run]
    from IH have mono: "prefix_len e < rpl \<or> (rpl = prefix_len e \<and> rmet \<le> metric e)"
      by blast
    from IH have rest: "\<forall>x\<in>set es. route_matches d x \<longrightarrow>
             prefix_len x < rpl \<or> (prefix_len x = rpl \<and> rmet \<le> metric x)"
      by blast
    from IH have pick: "(rm = Some i \<and> rpl = prefix_len e \<and> rmet = metric e)
          \<or> (\<exists>k<length es. rm = Some (Suc i + k) \<and> route_matches d (es ! k)
                \<and> prefix_len (es ! k) = rpl \<and> metric (es ! k) = rmet)"
      by blast
    have c1: "bpl < rpl \<or> (rpl = bpl \<and> rmet \<le> bmet)"
      using True mono by auto
    have c2: "\<forall>x\<in>set (e # es). route_matches d x \<longrightarrow>
             prefix_len x < rpl \<or> (prefix_len x = rpl \<and> rmet \<le> metric x)"
      using mono rest by auto
    have c3: "\<exists>k<length (e # es). rm = Some (i + k) \<and> route_matches d ((e # es) ! k)
                \<and> prefix_len ((e # es) ! k) = rpl \<and> metric ((e # es) ! k) = rmet"
      using pick
    proof
      assume "rm = Some i \<and> rpl = prefix_len e \<and> rmet = metric e"
      with True show ?thesis by (intro exI [of _ 0]) simp
    next
      assume "\<exists>k<length es. rm = Some (Suc i + k) \<and> route_matches d (es ! k)
                \<and> prefix_len (es ! k) = rpl \<and> metric (es ! k) = rmet"
      then obtain k where "k < length es" "rm = Some (Suc i + k)" "route_matches d (es ! k)"
        "prefix_len (es ! k) = rpl" "metric (es ! k) = rmet" by blast
      then show ?thesis by (intro exI [of _ "Suc k"]) simp
    qed
    from c1 c2 c3 show ?thesis by blast
  next
    case False
    with Cons.prems
    have run: "find_route_loop d es (Suc i) (bm, bpl, bmet) = (rm, rpl, rmet)"
      by (auto simp: route_matches_def split: if_splits)
    note IH = Cons.IH [OF run]
    from IH have mono: "bpl < rpl \<or> (rpl = bpl \<and> rmet \<le> bmet)"
      by blast
    from IH have rest: "\<forall>x\<in>set es. route_matches d x \<longrightarrow>
             prefix_len x < rpl \<or> (prefix_len x = rpl \<and> rmet \<le> metric x)"
      by blast
    from IH have pick: "(rm = bm \<and> rpl = bpl \<and> rmet = bmet)
          \<or> (\<exists>k<length es. rm = Some (Suc i + k) \<and> route_matches d (es ! k)
                \<and> prefix_len (es ! k) = rpl \<and> metric (es ! k) = rmet)"
      by blast
    have head: "route_matches d e \<longrightarrow>
             prefix_len e < rpl \<or> (prefix_len e = rpl \<and> rmet \<le> metric e)"
      using False mono by auto
    have c2: "\<forall>x\<in>set (e # es). route_matches d x \<longrightarrow>
             prefix_len x < rpl \<or> (prefix_len x = rpl \<and> rmet \<le> metric x)"
      using head rest by auto
    have c3: "(rm = bm \<and> rpl = bpl \<and> rmet = bmet)
          \<or> (\<exists>k<length (e # es). rm = Some (i + k) \<and> route_matches d ((e # es) ! k)
                \<and> prefix_len ((e # es) ! k) = rpl \<and> metric ((e # es) ! k) = rmet)"
      using pick
    proof
      assume "rm = bm \<and> rpl = bpl \<and> rmet = bmet"
      then show ?thesis by blast
    next
      assume "\<exists>k<length es. rm = Some (Suc i + k) \<and> route_matches d (es ! k)
                \<and> prefix_len (es ! k) = rpl \<and> metric (es ! k) = rmet"
      then obtain k where "k < length es" "rm = Some (Suc i + k)" "route_matches d (es ! k)"
        "prefix_len (es ! k) = rpl" "metric (es ! k) = rmet" by blast
      then have "\<exists>k<length (e # es). rm = Some (i + k) \<and> route_matches d ((e # es) ! k)
                \<and> prefix_len ((e # es) ! k) = rpl \<and> metric ((e # es) ! k) = rmet"
        by (intro exI [of _ "Suc k"]) simp
      then show ?thesis by blast
    qed
    from mono c2 c3 show ?thesis by blast
  qed
qed

lemma prefix_match_zero: "RTNET_IPv6_PrefixMatch (Some a) (Some p) 0"
  by (simp add: RTNET_IPv6_PrefixMatch_def)

lemma prefix_match_full:
  "length a = 16 \<Longrightarrow> length p = 16 \<Longrightarrow> RTNET_IPv6_PrefixMatch (Some a) (Some p) 128 = (a = p)"
  by (simp add: RTNET_IPv6_PrefixMatch_def)

text \<open>
  What the lookup guarantees. When \<^verbatim>\<open>RTNET_FindRoute\<close> returns an entry, the entry is
  valid, its prefix matches the destination, and no valid matching entry has a longer
  prefix or an equal prefix with a lower metric. It returns none when no valid entry
  matches, and an entry when some valid matching entry differs from the starting
  accumulator \<open>(0, UINT16_MAX)\<close> in prefix length or metric. A prefix of length 0 matches
  every address; a prefix of length 128 matches only the exact address (addresses being 16
  bytes long).
\<close>

lemma find_route_result_unbeaten:
  "(RTNET_FindRoute ctx (Some d) = Some k \<longrightarrow>
       k < length (routing_table ctx)
     \<and> rt_valid (routing_table ctx ! k)
     \<and> RTNET_IPv6_PrefixMatch (Some d) (Some (destination (routing_table ctx ! k)))
           (prefix_len (routing_table ctx ! k))
     \<and> (\<forall>j < length (routing_table ctx). route_matches d (routing_table ctx ! j) \<longrightarrow>
            prefix_len (routing_table ctx ! j) < prefix_len (routing_table ctx ! k)
          \<or> (prefix_len (routing_table ctx ! j) = prefix_len (routing_table ctx ! k)
             \<and> metric (routing_table ctx ! k) \<le> metric (routing_table ctx ! j))))
   \<and> ((\<exists>j < length (routing_table ctx). route_matches d (routing_table ctx ! j)
          \<and> (0 < prefix_len (routing_table ctx ! j) \<or> metric (routing_table ctx ! j) < 0xFFFF))
       \<longrightarrow> RTNET_FindRoute ctx (Some d) \<noteq> None)
   \<and> ((\<forall>j < length (routing_table ctx). \<not> route_matches d (routing_table ctx ! j))
       \<longrightarrow> RTNET_FindRoute ctx (Some d) = None)
   \<and> RTNET_IPv6_PrefixMatch (Some a) (Some p) 0
   \<and> (length a = 16 \<and> length p = 16 \<longrightarrow> RTNET_IPv6_PrefixMatch (Some a) (Some p) 128 = (a = p))"
proof -
  let ?tbl = "routing_table ctx"
  obtain rm rpl rmet where run: "find_route_loop d ?tbl 0 (None, 0, 0xFFFF) = (rm, rpl, rmet)"
    by (metis prod_cases3)
  then have res: "RTNET_FindRoute ctx (Some d) = rm"
    by (simp add: RTNET_FindRoute_def)
  note inv = find_route_loop_inv [OF run]
  from inv have best: "\<forall>e\<in>set ?tbl. route_matches d e \<longrightarrow>
             prefix_len e < rpl \<or> (prefix_len e = rpl \<and> rmet \<le> metric e)"
    by blast
  from inv have pick: "(rm = None \<and> rpl = 0 \<and> rmet = 0xFFFF)
          \<or> (\<exists>k<length ?tbl. rm = Some k \<and> route_matches d (?tbl ! k)
                \<and> prefix_len (?tbl ! k) = rpl \<and> metric (?tbl ! k) = rmet)"
    by simp
  have p1: "k < length ?tbl \<and> rt_valid (?tbl ! k)
     \<and> RTNET_IPv6_PrefixMatch (Some d) (Some (destination (?tbl ! k))) (prefix_len (?tbl ! k))
     \<and> (\<forall>j < length ?tbl. route_matches d (?tbl ! j) \<longrightarrow>
            prefix_len (?tbl ! j) < prefix_len (?tbl ! k)
          \<or> (prefix_len (?tbl ! j) = prefix_len (?tbl ! k) \<and> metric (?tbl ! k) \<le> metric (?tbl ! j)))"
    if "RTNET_FindRoute ctx (Some d) = Some k"
  proof -
    from that res pick have k: "k < length ?tbl" "route_matches d (?tbl ! k)"
      "prefix_len (?tbl ! k) = rpl" "metric (?tbl ! k) = rmet"
      by auto
    from best k(3,4) have "\<forall>j < length ?tbl. route_matches d (?tbl ! j) \<longrightarrow>
            prefix_len (?tbl ! j) < prefix_len (?tbl ! k)
          \<or> (prefix_len (?tbl ! j) = prefix_len (?tbl ! k) \<and> metric (?tbl ! k) \<le> metric (?tbl ! j))"
      by simp
    with k(1,2) show ?thesis by (simp add: route_matches_def)
  qed
  have p2: "RTNET_FindRoute ctx (Some d) \<noteq> None"
    if "\<exists>j < length ?tbl. route_matches d (?tbl ! j)
          \<and> (0 < prefix_len (?tbl ! j) \<or> metric (?tbl ! j) < 0xFFFF)"
  proof
    assume "RTNET_FindRoute ctx (Some d) = None"
    with res pick have z: "rpl = 0" "rmet = 0xFFFF" by auto
    from that obtain j where j: "j < length ?tbl" "route_matches d (?tbl ! j)"
      "0 < prefix_len (?tbl ! j) \<or> metric (?tbl ! j) < 0xFFFF" by blast
    from best j(1,2) z have "prefix_len (?tbl ! j) < 0
        \<or> (prefix_len (?tbl ! j) = 0 \<and> 0xFFFF \<le> metric (?tbl ! j))"
      by auto
    with j(3) show False by auto
  qed
  have p3: "RTNET_FindRoute ctx (Some d) = None"
    if "\<forall>j < length ?tbl. \<not> route_matches d (?tbl ! j)"
    using that res pick by auto
  from p1 p2 p3 prefix_match_zero [of a p] prefix_match_full [of a p] show ?thesis
    by blast
qed

text \<open>
  Claim C4. The claim asks that the lookup return, among the valid matching entries, the one
  with the longest prefix and then the lowest metric. The loop starts from the accumulator
  \<open>(NULL, 0, UINT16_MAX)\<close> and replaces it only by a strictly better entry, so a default
  route \<open>::/0\<close> of metric 65535 is never chosen. In the context reached by initialization
  and \<open>add_route(::/0, metric 65535)\<close> that route is the only valid entry matching
  \<open>2001:db8::1\<close>, and the lookup returns none.
\<close>

theorem find_route_skips_sentinel_default_route:
  "fst (RTNET_AddRoute demo_init (Some zero_ipv6) 0 None 0xFFFF 30) = RTNET_OK
   \<and> rt_valid (routing_table demo_default ! 1)
   \<and> RTNET_IPv6_PrefixMatch (Some demo_remote_ip)
        (Some (destination (routing_table demo_default ! 1)))
        (prefix_len (routing_table demo_default ! 1))
   \<and> prefix_len (routing_table demo_default ! 1) = 0
   \<and> metric (routing_table demo_default ! 1) = 0xFFFF
   \<and> list_all (\<lambda>e. route_matches demo_remote_ip e = (e = routing_table demo_default ! 1))
        (routing_table demo_default)
   \<and> RTNET_FindRoute demo_default (Some demo_remote_ip) = None"
  by code_simp

text \<open>
  No path through \<^verbatim>\<open>RTNET_UDP_Send\<close> or \<^verbatim>\<open>RTNET_TCP_Connect\<close>, the callers of the
  lookup, writes to the routing table.
\<close>

lemma lookup_never_writes_routing_table:
  "routing_table (snd (RTNET_UDP_Send ctx dest_addr dest_port src_port payload payload_len qos))
     = routing_table ctx
   \<and> routing_table (snd (snd (RTNET_TCP_Connect ctx dest_addr dest_port cell now)))
     = routing_table ctx"
  by (auto simp: RTNET_UDP_Send_def RTNET_TCP_Connect_def Let_def udp_assign_src_port_frame
        split: option.splits)

text \<open>
  Claim C5. The claim asks for the winning entry's last-used stamp to be set to the current
  time. In the code it keeps the time of insertion: a connect at time 300000 finds the
  route added at time 30 and leaves its stamp at 30, and the periodic task at 300031
  invalidates the route that was used 31 ms before.
\<close>

theorem find_route_leaves_last_used_stale:
  "RTNET_FindRoute demo_routed (Some demo_remote_ip) = Some 1
   \<and> last_used_ms (routing_table demo_routed ! 1) = 30
   \<and> fst (RTNET_TCP_Connect demo_routed (Some demo_remote_ip) 80 (Some 7) 300000) = RTNET_OK
   \<and> last_used_ms
        (routing_table (snd (snd (RTNET_TCP_Connect demo_routed (Some demo_remote_ip) 80 (Some 7) 300000))) ! 1)
       = 30
   \<and> \<not> rt_valid
        (routing_table
           (RTNET_PeriodicTask
              (snd (snd (RTNET_TCP_Connect demo_routed (Some demo_remote_ip) 80 (Some 7) 300000)))
              300031) ! 1)"
  by code_simp

subsection \<open>Periodic task\<close>

lemma age_routing_table_length: "length (age_routing_table now tbl) = length tbl"
  by (induction tbl) auto

lemma age_routing_table_nth:
  "i < length tbl \<Longrightarrow>
     age_routing_table now tbl ! i =
       (if rt_valid (tbl ! i) \<and> now - last_used_ms (tbl ! i) > 300000
        then (tbl ! i)\<lparr>rt_valid := False\<rparr> else tbl ! i)"
proof (induction tbl arbitrary: i)
  case Nil
  then show ?case by simp
next
  case (Cons e es)
  then show ?case by (cases i) auto
qed

lemma initialize_link_local_route:
  "routing_table (snd (RTNET_Initialize c (Some ip) (Some mac) t_seq t_route)) ! 0 =
     zero_route\<lparr>destination := link_local_prefix, next_hop := zero_ipv6, prefix_len := 10,
                metric := 1, last_used_ms := t_route, rt_valid := True\<rparr>"
proof -
  have "first_index (\<lambda>e. \<not> rt_valid e) (replicate RTNET_MAX_ROUTING_ENTRIES zero_route) = Some 0"
    by (rule first_index_replicate) (simp_all add: RTNET_MAX_ROUTING_ENTRIES_def zero_route_def)
  then show ?thesis
    by (simp add: RTNET_Initialize_def RTNET_AddRoute_def zero_context_def Let_def
          RTNET_MAX_ROUTING_ENTRIES_def)
qed

text \<open>
  Claim C2, as amended. \<^verbatim>\<open>RTNET_PeriodicTask\<close> invalidates exactly the valid route
  entries whose age \<open>now - last_used_ms\<close> (in 32-bit arithmetic) exceeds 300000 and changes
  no other field of any entry. The link-local route \<open>fe80::/10\<close> of metric 1 that
  initialization puts in entry 0 is aged like the others: after the task it is valid
  exactly when its age is at most 300000.
\<close>

theorem periodic_task_ages_every_route:
  "length (routing_table (RTNET_PeriodicTask ctx now)) = length (routing_table ctx)
   \<and> (\<forall>i < length (routing_table ctx).
         routing_table (RTNET_PeriodicTask ctx now) ! i =
           (if rt_valid (routing_table ctx ! i)
               \<and> now - last_used_ms (routing_table ctx ! i) > 300000
            then (routing_table ctx ! i)\<lparr>rt_valid := False\<rparr>
            else routing_table ctx ! i))
   \<and> destination (routing_table (snd (RTNET_Initialize c (Some ip) (Some mac) t_seq t_route)) ! 0)
        = link_local_prefix
   \<and> prefix_len (routing_table (snd (RTNET_Initialize c (Some ip) (Some mac) t_seq t_route)) ! 0)
        = 10
   \<and> metric (routing_table (snd (RTNET_Initialize c (Some ip) (Some mac) t_seq t_route)) ! 0) = 1
   \<and> rt_valid (routing_table (snd (RTNET_Initialize c (Some ip) (Some mac) t_seq t_route)) ! 0)
   \<and> (rt_valid (routing_table
          (RTNET_PeriodicTask (snd (RTNET_Initialize c (Some ip) (Some mac) t_seq t_route)) now') ! 0)
        = (now' - t_route \<le> 300000))"
proof -
  let ?s = "snd (RTNET_Initialize c (Some ip) (Some mac) t_seq t_route)"
  have tbl: "routing_table (RTNET_PeriodicTask ctx now) = age_routing_table now (routing_table ctx)"
    for ctx now
    by (simp add: RTNET_PeriodicTask_def)
  have len: "0 < length (routing_table ?s)"
    by (simp add: RTNET_Initialize_def RTNET_AddRoute_def zero_context_def Let_def
          RTNET_MAX_ROUTING_ENTRIES_def split: option.splits)
  have aged: "rt_valid (routing_table (RTNET_PeriodicTask ?s now') ! 0) = (now' - t_route \<le> 300000)"
    using len by (auto simp: tbl age_routing_table_nth initialize_link_local_route)
  show ?thesis
    using aged
    by (simp add: tbl age_routing_table_length age_routing_table_nth initialize_link_local_route)
qed

text \<open>
  At time 300025 the link-local route stamped 20 is invalidated and the host route stamped
  30 is kept.
\<close>

theorem periodic_task_ages_every_route_witness:
  "\<not> rt_valid (routing_table (RTNET_PeriodicTask demo_routed 300025) ! 0)
   \<and> rt_valid (routing_table (RTNET_PeriodicTask demo_routed 300025) ! 1)"
proof -
  have f: "0 < length (routing_table demo_routed)" "1 < length (routing_table demo_routed)"
    "rt_valid (routing_table demo_routed ! 0)" "last_used_ms (routing_table demo_routed ! 0) = 20"
    "rt_valid (routing_table demo_routed ! 1)" "last_used_ms (routing_table demo_routed ! 1) = 30"
    by code_simp+
  from periodic_task_ages_every_route [where ctx = demo_routed and now = 300025]
  have "\<forall>i < length (routing_table demo_routed).
         routing_table (RTNET_PeriodicTask demo_routed 300025) ! i =
           (if rt_valid (routing_table demo_routed ! i)
               \<and> 300025 - last_used_ms (routing_table demo_routed ! i) > 300000
            then (routing_table demo_routed ! i)\<lparr>rt_valid := False\<rparr>
            else routing_table demo_routed ! i)"
    by blast
  with f show ?thesis by simp
qed

text \<open>
  Claim C2 as stated fails on the freshly initialized context: the periodic task at time
  300021 invalidates the link-local route.
\<close>

theorem periodic_task_ages_link_local_counterexample:
  "destination (routing_table demo_init ! 0) = link_local_prefix
   \<and> prefix_len (routing_table demo_init ! 0) = 10
   \<and> metric (routing_table demo_init ! 0) = 1
   \<and> rt_valid (routing_table demo_init ! 0)
   \<and> \<not> rt_valid (routing_table (RTNET_PeriodicTask demo_init 300021) ! 0)"
  by code_simp

subsection \<open>TCP connections\<close>

lemma tcp_connect_ok_eq:
  "initialized ctx \<Longrightarrow> dest_port \<noteq> 0 \<Longrightarrow> RTNET_FindRoute ctx (Some dest) \<noteq> None \<Longrightarrow>
   first_index (\<lambda>c. \<not> tcp_in_use c) (tcp_connections ctx) = Some i \<Longrightarrow>
   RTNET_TCP_Connect ctx (Some dest) dest_port (Some cell) now =
     (RTNET_OK, Some (of_nat i),
      ctx\<lparr>tcp_connections :=
             (tcp_connections ctx)[i :=
               zero_connection\<lparr>local_addr := local_ipv6 ctx,
                               remote_addr := dest,
                               local_port := next_ephemeral_port ctx,
                               remote_port := dest_port,
                               tcp_state := RTNET_TCP_ESTABLISHED,
                               last_activity_ms := now,
                               tcp_in_use := True\<rparr>],
           next_ephemeral_port := next_ephemeral_port ctx + 1\<rparr>)"
  by (auto simp: RTNET_TCP_Connect_def split: option.splits)

text \<open>
  Claim C6, as amended. On an initialized context where the route check passes (the lookup
  \<^verbatim>\<open>RTNET_FindRoute\<close> returns an entry for the destination), with a non-zero
  destination port and a free slot, \<^verbatim>\<open>RTNET_TCP_Connect\<close> fills the first free slot,
  takes its local port from the ephemeral counter (which it advances by one), leaves the
  connection in use in state \<^verbatim>\<open>RTNET_TCP_ESTABLISHED\<close> and returns the slot index as
  the handle. Nothing is said here of the contexts where a valid route matches and the
  lookup still returns none.
\<close>

theorem tcp_connect_established:
  "initialized ctx \<and> dest_port \<noteq> 0 \<and> RTNET_FindRoute ctx (Some dest) \<noteq> None
     \<and> (\<exists>c \<in> set (tcp_connections ctx). \<not> tcp_in_use c) \<longrightarrow>
   (\<exists>i < length (tcp_connections ctx).
       \<not> tcp_in_use (tcp_connections ctx ! i)
     \<and> (\<forall>j<i. tcp_in_use (tcp_connections ctx ! j))
     \<and> RTNET_TCP_Connect ctx (Some dest) dest_port (Some cell) now =
         (RTNET_OK, Some (of_nat i),
          ctx\<lparr>tcp_connections :=
                 (tcp_connections ctx)[i :=
                   zero_connection\<lparr>local_addr := local_ipv6 ctx,
                                   remote_addr := dest,
                                   local_port := next_ephemeral_port ctx,
                                   remote_port := dest_port,
                                   tcp_state := RTNET_TCP_ESTABLISHED,
                                   last_activity_ms := now,
                                   tcp_in_use := True\<rparr>],
               next_ephemeral_port := next_ephemeral_port ctx + 1\<rparr>)
     \<and> tcp_state (tcp_connections (snd (snd (RTNET_TCP_Connect ctx (Some dest) dest_port (Some cell) now))) ! i)
         = RTNET_TCP_ESTABLISHED
     \<and> local_port (tcp_connections (snd (snd (RTNET_TCP_Connect ctx (Some dest) dest_port (Some cell) now))) ! i)
         = next_ephemeral_port ctx
     \<and> tcp_in_use (tcp_connections (snd (snd (RTNET_TCP_Connect ctx (Some dest) dest_port (Some cell) now))) ! i))"
proof
  assume a: "initialized ctx \<and> dest_port \<noteq> 0 \<and> RTNET_FindRoute ctx (Some dest) \<noteq> None
     \<and> (\<exists>c \<in> set (tcp_connections ctx). \<not> tcp_in_use c)"
  then obtain i where i: "first_index (\<lambda>c. \<not> tcp_in_use c) (tcp_connections ctx) = Some i"
    using first_index_None [of "\<lambda>c. \<not> tcp_in_use c" "tcp_connections ctx"] by auto
  note fi = first_index_Some [OF i]
  from a i have eq: "RTNET_TCP_Connect ctx (Some dest) dest_port (Some cell) now =
         (RTNET_OK, Some (of_nat i),
          ctx\<lparr>tcp_connections :=
                 (tcp_connections ctx)[i :=
                   zero_connection\<lparr>local_addr := local_ipv6 ctx,
                                   remote_addr := dest,
                                   local_port := next_ephemeral_port ctx,
                                   remote_port := dest_port,
                                   tcp_state := RTNET_TCP_ESTABLISHED,
                                   last_activity_ms := now,
                                   tcp_in_use := True\<rparr>],
               next_ephemeral_port := next_ephemeral_port ctx + 1\<rparr>)"
    by (auto simp: RTNET_TCP_Connect_def split: option.splits)
  from fi eq show "\<exists>i < length (tcp_connections ctx).
       \<not> tcp_in_use (tcp_connections ctx ! i)
     \<and> (\<forall>j<i. tcp_in_use (tcp_connections ctx ! j))
     \<and> RTNET_TCP_Connect ctx (Some dest) dest_port (Some cell) now =
         (RTNET_OK, Some (of_nat i),
          ctx\<lparr>tcp_connections :=
                 (tcp_connections ctx)[i :=
                   zero_connection\<lparr>local_addr := local_ipv6 ctx,
                                   remote_addr := dest,
                                   local_port := next_ephemeral_port ctx,
                                   remote_port := dest_port,
                                   tcp_state := RTNET_TCP_ESTABLISHED,
                                   last_activity_ms := now,
                                   tcp_in_use := True\<rparr>],
               next_ephemeral_port := next_ephemeral_port ctx + 1\<rparr>)
     \<and> tcp_state (tcp_connections (snd (snd (RTNET_TCP_Connect ctx (Some dest) dest_port (Some cell) now))) ! i)
         = RTNET_TCP_ESTABLISHED
     \<and> local_port (tcp_connections (snd (snd (RTNET_TCP_Connect ctx (Some dest) dest_port (Some cell) now))) ! i)
         = next_ephemeral_port ctx
     \<and> tcp_in_use (tcp_connections (snd (snd (RTNET_TCP_Connect ctx (Some dest) dest_port (Some cell) now))) ! i)"
    by (intro exI [of _ i]) simp
qed

text \<open>
  The desktop demo's connect takes slot 0 with local port 49152.
\<close>

theorem tcp_connect_established_witness:
  "RTNET_TCP_Connect demo_routed (Some demo_remote_ip) 80 (Some 7) 40 =
     (RTNET_OK, Some 0, snd (snd (RTNET_TCP_Connect demo_routed (Some demo_remote_ip) 80 (Some 7) 40)))
   \<and> tcp_state (tcp_connections (snd (snd (RTNET_TCP_Connect demo_routed (Some demo_remote_ip) 80 (Some 7) 40))) ! 0)
       = RTNET_TCP_ESTABLISHED
   \<and> local_port (tcp_connections (snd (snd (RTNET_TCP_Connect demo_routed (Some demo_remote_ip) 80 (Some 7) 40))) ! 0)
       = 49152"
proof -
  have h: "initialized demo_routed" "RTNET_FindRoute demo_routed (Some demo_remote_ip) \<noteq> None"
    "next_ephemeral_port demo_routed = 49152"
    by code_simp+
  have free0: "\<not> tcp_in_use (tcp_connections demo_routed ! 0)" "0 < length (tcp_connections demo_routed)"
    by code_simp+
  then have ex: "\<exists>c \<in> set (tcp_connections demo_routed). \<not> tcp_in_use c"
    using nth_mem by blast
  from tcp_connect_established [where ctx = demo_routed and dest = demo_remote_ip
      and dest_port = 80 and cell = 7 and now = 40] h ex
  obtain i where i: "\<forall>j<i. tcp_in_use (tcp_connections demo_routed ! j)"
    "fst (RTNET_TCP_Connect demo_routed (Some demo_remote_ip) 80 (Some 7) 40) = RTNET_OK"
    "fst (snd (RTNET_TCP_Connect demo_routed (Some demo_remote_ip) 80 (Some 7) 40)) = Some (of_nat i)"
    "tcp_state (tcp_connections (snd (snd (RTNET_TCP_Connect demo_routed (Some demo_remote_ip) 80 (Some 7) 40))) ! i)
         = RTNET_TCP_ESTABLISHED"
    "local_port (tcp_connections (snd (snd (RTNET_TCP_Connect demo_routed (Some demo_remote_ip) 80 (Some 7) 40))) ! i)
         = next_ephemeral_port demo_routed"
    by auto
  from i(1) free0 have "i = 0" by (cases i) auto
  with i h show ?thesis by (simp add: prod_eq_iff)
qed

text \<open>
  Claim C6 as stated fails on the desktop demo's connect: the connection is not left in
  state \<^verbatim>\<open>RTNET_TCP_SYN_SENT\<close>.
\<close>

theorem tcp_connect_not_syn_sent_counterexample:
  "initialized demo_routed
   \<and> RTNET_FindRoute demo_routed (Some demo_remote_ip) \<noteq> None
   \<and> \<not> tcp_in_use (tcp_connections demo_routed ! 0)
   \<and> fst (RTNET_TCP_Connect demo_routed (Some demo_remote_ip) 80 (Some 7) 40) = RTNET_OK
   \<and> tcp_state (tcp_connections (snd (snd (RTNET_TCP_Connect demo_routed (Some demo_remote_ip) 80 (Some 7) 40))) ! 0)
       \<noteq> RTNET_TCP_SYN_SENT"
  by code_simp

text \<open>
  Every operation keeps every slot either in use and established or free and closed.
\<close>

lemma timeout_tcp_connections_ok:
  "list_all tcp_slot_ok conns \<Longrightarrow> list_all tcp_slot_ok (timeout_tcp_connections now conns)"
  by (induction conns) (auto simp: tcp_slot_ok_def)

lemma initialize_slots_ok:
  "list_all tcp_slot_ok (tcp_connections ctx) \<Longrightarrow>
     list_all tcp_slot_ok (tcp_connections (snd (RTNET_Initialize ctx ip mac t_seq t_route)))"
  by (auto simp: RTNET_Initialize_def RTNET_AddRoute_def zero_context_def Let_def
        list_all_length tcp_slot_ok_def zero_connection_def split: option.splits)

lemma initialize_fresh_slots_ok:
  "list_all tcp_slot_ok
     (tcp_connections (snd (RTNET_Initialize ctx (Some ip) (Some mac) t_seq t_route)))"
  by (auto simp: RTNET_Initialize_def RTNET_AddRoute_def zero_context_def Let_def
        list_all_length tcp_slot_ok_def zero_connection_def split: option.splits)

lemma add_route_tcp_connections:
  "tcp_connections (snd (RTNET_AddRoute ctx dest plen nhop met now)) = tcp_connections ctx"
  by (auto simp: RTNET_AddRoute_def split: option.splits)

lemma process_rx_tcp_connections:
  "tcp_connections (snd (RTNET_ProcessRxPacket ctx data len)) = tcp_connections ctx"
  by (auto simp: RTNET_ProcessRxPacket_def Let_def)

lemma udp_send_tcp_connections:
  "tcp_connections (snd (RTNET_UDP_Send ctx dest dport sport payload len qos)) = tcp_connections ctx"
  by (auto simp: RTNET_UDP_Send_def Let_def udp_assign_src_port_frame split: option.splits)

lemma mdns_announce_tcp_connections:
  "tcp_connections (snd (RTNET_mDNS_Announce ctx name port ttl_sec)) = tcp_connections ctx"
  by (auto simp: RTNET_mDNS_Announce_def)

lemma tcp_connect_slots_ok:
  "list_all tcp_slot_ok (tcp_connections ctx) \<Longrightarrow>
     list_all tcp_slot_ok (tcp_connections (snd (snd (RTNET_TCP_Connect ctx dest dport cell now))))"
  by (auto simp: RTNET_TCP_Connect_def tcp_slot_ok_def intro!: list_all_update
        split: option.splits)

lemma tcp_send_slots_ok:
  "list_all tcp_slot_ok (tcp_connections ctx) \<Longrightarrow>
     list_all tcp_slot_ok (tcp_connections (snd (RTNET_TCP_Send ctx cid data len now)))"
proof -
  assume a: "list_all tcp_slot_ok (tcp_connections ctx)"
  let ?touch = "\<lambda>c. c\<lparr>last_activity_ms := now\<rparr>"
  have "tcp_slot_ok (?touch (tcp_connections ctx ! unat cid))"
    if "unat cid < length (tcp_connections ctx)"
    using a that by (auto simp: list_all_length tcp_slot_ok_def)
  with a have "list_all tcp_slot_ok
          ((tcp_connections ctx)[unat cid := ?touch (tcp_connections ctx ! unat cid)])"
    by (rule list_all_update_nth)
  with a show ?thesis
    by (auto simp: RTNET_TCP_Send_def Let_def)
qed

lemma tcp_close_slots_ok:
  "list_all tcp_slot_ok (tcp_connections ctx) \<Longrightarrow>
     list_all tcp_slot_ok (tcp_connections (snd (RTNET_TCP_Close ctx cid)))"
proof -
  assume a: "list_all tcp_slot_ok (tcp_connections ctx)"
  let ?shut = "\<lambda>c. c\<lparr>tcp_in_use := False, tcp_state := RTNET_TCP_CLOSED\<rparr>"
  have "tcp_slot_ok (?shut (tcp_connections ctx ! unat cid))"
    by (simp add: tcp_slot_ok_def)
  with a have "list_all tcp_slot_ok
          ((tcp_connections ctx)[unat cid := ?shut (tcp_connections ctx ! unat cid)])"
    by (rule list_all_update_nth)
  with a show ?thesis
    by (auto simp: RTNET_TCP_Close_def Let_def)
qed

lemma api_step_slots_ok:
  "list_all tcp_slot_ok (tcp_connections ctx) \<Longrightarrow>
     list_all tcp_slot_ok (tcp_connections (api_step ctx call))"
  by (cases call)
     (simp_all add: initialize_slots_ok add_route_tcp_connections process_rx_tcp_connections
        udp_send_tcp_connections mdns_announce_tcp_connections tcp_connect_slots_ok
        tcp_send_slots_ok tcp_close_slots_ok timeout_tcp_connections_ok RTNET_PeriodicTask_def)

lemma api_run_slots_ok:
  "list_all tcp_slot_ok (tcp_connections ctx) \<Longrightarrow>
     list_all tcp_slot_ok (tcp_connections (api_run ctx calls))"
  unfolding api_run_def
  by (induction calls arbitrary: ctx) (simp_all add: api_step_slots_ok)

text \<open>
  Claim C9. In every context reached from a freshly initialized one by calls of the public
  API, every connection slot in use is in state \<^verbatim>\<open>RTNET_TCP_ESTABLISHED\<close>, and no slot is
  in one of the states SYN\_SENT, SYN\_RCVD, FIN\_WAIT, CLOSE\_WAIT, CLOSING, TIME\_WAIT.
\<close>

theorem tcp_slots_established_or_closed:
  "\<forall>conn \<in> set (tcp_connections
       (api_run (snd (RTNET_Initialize c (Some ip) (Some mac) t_seq t_route)) calls)).
     (tcp_in_use conn \<longrightarrow> tcp_state conn = RTNET_TCP_ESTABLISHED)
     \<and> tcp_state conn \<noteq> RTNET_TCP_SYN_SENT
     \<and> tcp_state conn \<noteq> RTNET_TCP_SYN_RCVD
     \<and> tcp_state conn \<noteq> RTNET_TCP_FIN_WAIT
     \<and> tcp_state conn \<noteq> RTNET_TCP_CLOSE_WAIT
     \<and> tcp_state conn \<noteq> RTNET_TCP_CLOSING
     \<and> tcp_state conn \<noteq> RTNET_TCP_TIME_WAIT"
proof -
  have "list_all tcp_slot_ok (tcp_connections
       (api_run (snd (RTNET_Initialize c (Some ip) (Some mac) t_seq t_route)) calls))"
    by (rule api_run_slots_ok) (rule initialize_fresh_slots_ok)
  then show ?thesis
    by (auto simp: list_all_iff tcp_slot_ok_def split: if_splits)
qed

text \<open>
  After \<open>demo_session\<close> slot 1 is in use and established and slot 0 is free.
\<close>

theorem tcp_slots_established_or_closed_witness:
  "tcp_in_use (tcp_connections (api_run demo_init demo_session) ! 1)
   \<and> tcp_state (tcp_connections (api_run demo_init demo_session) ! 1) = RTNET_TCP_ESTABLISHED
   \<and> \<not> tcp_in_use (tcp_connections (api_run demo_init demo_session) ! 0)
   \<and> tcp_state (tcp_connections (api_run demo_init demo_session) ! 0) \<noteq> RTNET_TCP_FIN_WAIT"
proof -
  let ?s = "api_run demo_init demo_session"
  have f: "tcp_in_use (tcp_connections ?s ! 1)" "\<not> tcp_in_use (tcp_connections ?s ! 0)"
    "length (tcp_connections ?s) = 4"
    by code_simp+
  then have mem: "tcp_connections ?s ! 1 \<in> set (tcp_connections ?s)"
    "tcp_connections ?s ! 0 \<in> set (tcp_connections ?s)"
    by simp_all
  from tcp_slots_established_or_closed [where c = zero_context and ip = demo_local_ip
      and mac = demo_local_mac and t_seq = 10 and t_route = 20 and calls = demo_session]
  have inv: "\<forall>conn \<in> set (tcp_connections ?s).
     (tcp_in_use conn \<longrightarrow> tcp_state conn = RTNET_TCP_ESTABLISHED)
     \<and> tcp_state conn \<noteq> RTNET_TCP_FIN_WAIT"
    unfolding demo_init_def by blast
  from inv mem f show ?thesis by blast
qed

subsection \<open>Ephemeral ports\<close>

text \<open>
  The auto-assignment of \<^verbatim>\<open>RTNET_UDP_Send\<close> hands out the counter and wraps it from
  65535 to 49152, so it never leaves the counter at 0.
\<close>

lemma udp_assign_src_port_wraps:
  "fst (udp_assign_src_port ctx 0) = next_ephemeral_port ctx
   \<and> next_ephemeral_port (snd (udp_assign_src_port ctx 0)) =
        (if next_ephemeral_port ctx = 0xFFFF then 49152 else next_ephemeral_port ctx + 1)
   \<and> next_ephemeral_port (snd (udp_assign_src_port ctx 0)) \<noteq> 0"
  by (simp add: udp_assign_src_port_def Let_def u16_succ_zero)

lemma port_probe_step:
  assumes "port_probe_state n s" and "n < 16383"
  shows "port_probe_state (Suc n) (api_step s demo_port_probe)"
proof -
  have nr: "RTNET_FindRoute demo_routed (Some demo_unrouted_ip) = None"
    by code_simp
  from assms(1) have s: "initialized s" "routing_table s = routing_table demo_routed"
    "tcp_connections s = tcp_connections demo_routed"
    "unat (next_ephemeral_port s) = 49152 + n"
    by (simp_all add: port_probe_state_def)
  from s(2) nr have none: "RTNET_FindRoute s (Some demo_unrouted_ip) = None"
    using find_route_table_only [of s demo_routed] by simp
  from u16_succ_in_range [OF s(4) assms(2)]
  have p: "next_ephemeral_port s + 1 \<noteq> 0" "unat (next_ephemeral_port s + 1) = 49152 + Suc n"
    by simp_all
  have step: "api_step s demo_port_probe =
      s\<lparr>next_ephemeral_port := next_ephemeral_port s + 1,
        stats := (stats s)\<lparr>routing_errors := routing_errors (stats s) + 1\<rparr>\<rparr>"
    using s(1) none p(1)
    by (simp add: demo_port_probe_def RTNET_UDP_Send_def RTNET_MTU_SIZE_def Let_def
          find_route_port_update udp_assign_src_port_def)
  show ?thesis
    using s p(2) by (simp add: step port_probe_state_def)
qed

lemma port_probe_run:
  "port_probe_state k s \<Longrightarrow> k + n \<le> 16383 \<Longrightarrow>
     port_probe_state (k + n) (api_run s (replicate n demo_port_probe))"
proof (induction n arbitrary: k s)
  case 0
  then show ?case by (simp add: api_run_def)
next
  case (Suc n)
  from Suc.prems have "port_probe_state (Suc k) (api_step s demo_port_probe)"
    by (intro port_probe_step) simp_all
  from Suc.IH [OF this] Suc.prems(2) show ?case
    by (simp add: api_run_Cons)
qed

text \<open>
  Claim C3. The claim asks that no auto-assign request yields port 0.
  \<^verbatim>\<open>RTNET_TCP_Connect\<close> advances the counter without the wrap: after 16383 sends with an
  automatic source port the counter is 65535, the next connect takes local port 65535 and
  leaves the counter at 0, and the connect after it takes local port 0.
\<close>

theorem tcp_connect_assigns_port_zero:
  "tcp_in_use (tcp_connections (api_run demo_routed demo_port_trace) ! 0)
   \<and> local_port (tcp_connections (api_run demo_routed demo_port_trace) ! 0) = 0xFFFF
   \<and> tcp_in_use (tcp_connections (api_run demo_routed demo_port_trace) ! 1)
   \<and> local_port (tcp_connections (api_run demo_routed demo_port_trace) ! 1) = 0
   \<and> next_ephemeral_port (api_run demo_routed demo_port_trace) = 1"
proof -
  let ?s1 = "api_run demo_routed (replicate 16383 demo_port_probe)"
  have "initialized demo_routed" "next_ephemeral_port demo_routed = 49152"
    by code_simp+
  then have start: "port_probe_state 0 demo_routed"
    by (simp add: port_probe_state_def)
  from port_probe_run [OF start, of 16383]
  have s1: "initialized ?s1" "routing_table ?s1 = routing_table demo_routed"
    "tcp_connections ?s1 = tcp_connections demo_routed"
    "unat (next_ephemeral_port ?s1) = 65535"
    by (simp_all add: port_probe_state_def)
  from s1(4) have port1: "next_ephemeral_port ?s1 = 0xFFFF"
    by (simp add: word_unat_eq_iff)
  have "RTNET_FindRoute demo_routed (Some demo_remote_ip) \<noteq> None"
    by code_simp
  with s1(2) have route: "RTNET_FindRoute ctx (Some demo_remote_ip) \<noteq> None"
    if "routing_table ctx = routing_table ?s1" for ctx
    using that find_route_table_only [of ctx demo_routed] by simp
  have slots: "tcp_connections demo_routed
      = [zero_connection, zero_connection, zero_connection, zero_connection]"
    by code_simp
  have free0: "first_index (\<lambda>c. \<not> tcp_in_use c) (tcp_connections ?s1) = Some 0"
    by (simp add: s1(3) slots zero_connection_def)
  define c0 where "c0 = zero_connection\<lparr>local_addr := local_ipv6 ?s1,
                               remote_addr := demo_remote_ip,
                               local_port := next_ephemeral_port ?s1,
                               remote_port := 80,
                               tcp_state := RTNET_TCP_ESTABLISHED,
                               last_activity_ms := 50,
                               tcp_in_use := True\<rparr>"
  define s2 where "s2 = ?s1\<lparr>tcp_connections := (tcp_connections ?s1)[0 := c0],
                          next_ephemeral_port := next_ephemeral_port ?s1 + 1\<rparr>"
  have step2: "api_step ?s1 (Call_TCP_Connect (Some demo_remote_ip) 80 (Some 0) 50) = s2"
    using tcp_connect_ok_eq [OF s1(1) _ route free0, of 80 0 50]
    by (simp add: s2_def c0_def)
  have s2: "initialized s2" "routing_table s2 = routing_table ?s1" "next_ephemeral_port s2 = 0"
    "tcp_connections s2 = [c0, zero_connection, zero_connection, zero_connection]"
    by (simp_all add: s2_def s1 port1 slots)
  have free1: "first_index (\<lambda>c. \<not> tcp_in_use c) (tcp_connections s2) = Some 1"
    by (simp add: s2(4) c0_def zero_connection_def)
  define c1 where "c1 = zero_connection\<lparr>local_addr := local_ipv6 s2,
                               remote_addr := demo_remote_ip,
                               local_port := next_ephemeral_port s2,
                               remote_port := 443,
                               tcp_state := RTNET_TCP_ESTABLISHED,
                               last_activity_ms := 60,
                               tcp_in_use := True\<rparr>"
  define s3 where "s3 = s2\<lparr>tcp_connections := (tcp_connections s2)[1 := c1],
                          next_ephemeral_port := next_ephemeral_port s2 + 1\<rparr>"
  have step3: "api_step s2 (Call_TCP_Connect (Some demo_remote_ip) 443 (Some 0) 60) = s3"
    using tcp_connect_ok_eq [OF s2(1) _ route free1, of 443 0 60] s2(2)
    by (simp add: s3_def c1_def)
  have run: "api_run demo_routed demo_port_trace = s3"
    by (simp only: demo_port_trace_def api_run_append api_run_Cons api_run_Nil step2 step3)
  show ?thesis
    by (simp add: run s3_def s2 c1_def c0_def port1)
qed

subsection \<open>Table sizes\<close>

text \<open>
  Initialization gives every table the length of its array and every call of the public API
  keeps it, so the index reads of \<^verbatim>\<open>RTNET_TCP_Send\<close> and \<^verbatim>\<open>RTNET_TCP_Close\<close>, guarded
  by \<open>connection_id < RTNET_MAX_TCP_CONNECTIONS\<close>, stay inside the table.
\<close>

lemma age_neighbor_cache_length: "length (age_neighbor_cache now tbl) = length tbl"
  by (induction tbl) auto

lemma timeout_tcp_connections_length: "length (timeout_tcp_connections now conns) = length conns"
  by (induction conns) auto

lemma add_route_tables_sized:
  "tables_sized ctx \<Longrightarrow> tables_sized (snd (RTNET_AddRoute ctx dest plen nhop met now))"
  by (auto simp: RTNET_AddRoute_def tables_sized_def split: option.splits)

lemma initialize_tables_sized:
  "tables_sized (snd (RTNET_Initialize c (Some ip) (Some mac) t_seq t_route))"
proof -
  have "tables_sized (zero_context\<lparr>local_ipv6 := ip, local_mac := mac,
          next_ephemeral_port := 49152, sequence_number := t_seq\<rparr>)"
    by (simp add: tables_sized_def zero_context_def)
  from add_route_tables_sized [OF this] show ?thesis
    by (simp add: RTNET_Initialize_def Let_def tables_sized_def)
qed

lemma api_step_tables_sized:
  "tables_sized ctx \<Longrightarrow> tables_sized (api_step ctx call)"
proof (cases call)
  case (Call_Initialize ip mac t_seq t_route)
  assume a: "tables_sized ctx"
  show ?thesis
  proof (cases "ip = None \<or> mac = None")
    case True
    with a Call_Initialize show ?thesis
      by (auto simp: RTNET_Initialize_def split: option.splits)
  next
    case False
    with Call_Initialize initialize_tables_sized show ?thesis by auto
  qed
next
  case (Call_AddRoute dest plen nhop met now)
  then show "tables_sized ctx \<Longrightarrow> ?thesis" by (simp add: add_route_tables_sized)
next
  case (Call_PeriodicTask now)
  then show "tables_sized ctx \<Longrightarrow> ?thesis"
    by (simp add: RTNET_PeriodicTask_def tables_sized_def age_neighbor_cache_length
          age_routing_table_length timeout_tcp_connections_length)
next
  case (Call_ProcessRxPacket data len)
  then show "tables_sized ctx \<Longrightarrow> ?thesis"
    by (auto simp: RTNET_ProcessRxPacket_def Let_def tables_sized_def)
next
  case (Call_UDP_Send dest dport sport payload len qos)
  then show "tables_sized ctx \<Longrightarrow> ?thesis"
    by (auto simp: RTNET_UDP_Send_def udp_assign_src_port_def Let_def tables_sized_def
          split: option.splits)
next
  case (Call_TCP_Connect dest dport cell now)
  then show "tables_sized ctx \<Longrightarrow> ?thesis"
    by (auto simp: RTNET_TCP_Connect_def tables_sized_def split: option.splits)
next
  case (Call_TCP_Send cid data len now)
  then show "tables_sized ctx \<Longrightarrow> ?thesis"
    by (auto simp: RTNET_TCP_Send_def Let_def tables_sized_def)
next
  case (Call_TCP_Close cid)
  then show "tables_sized ctx \<Longrightarrow> ?thesis"
    by (auto simp: RTNET_TCP_Close_def Let_def tables_sized_def)
next
  case (Call_mDNS_Announce name port ttl_sec)
  then show "tables_sized ctx \<Longrightarrow> ?thesis"
    by (auto simp: RTNET_mDNS_Announce_def tables_sized_def)
qed simp_all

lemma api_run_tables_sized:
  "tables_sized (api_run (snd (RTNET_Initialize c (Some ip) (Some mac) t_seq t_route)) calls)"
proof -
  have "tables_sized s \<Longrightarrow> tables_sized (api_run s calls)" for s
    by (induction calls arbitrary: s) (simp_all add: api_run_Nil api_run_Cons api_step_tables_sized)
  with initialize_tables_sized show ?thesis by blast
qed

end
